theory Spec2Isabelle
  imports Main
begin

section \<open>Python strings\<close>

text \<open>
  A Python \<open>str\<close> is a sequence of Unicode code points; it is modelled as the list of
  their numbers. ASCII literals of the source are written with \<open>ascii\<close>; literals with
  Tamil, Malayalam or emoji characters are written as their code points.
\<close>

type_synonym pystr = "nat list"

definition ascii :: "string \<Rightarrow> pystr" where
  "ascii s = map of_char s"

text \<open>Truthiness of an \<open>Optional[str]\<close>: \<open>None\<close> and the empty string are falsy.\<close>

fun truthy :: "pystr option \<Rightarrow> bool" where
  "truthy None = False"
| "truthy (Some s) = (s \<noteq> [])"

text \<open>\<open>s.startswith(p)\<close>.\<close>

definition startswith :: "pystr \<Rightarrow> pystr \<Rightarrow> bool" where
  "startswith s p = (take (length p) s = p)"

text \<open>
  \<open>s.replace(old, new)\<close>: every non-overlapping occurrence of \<open>old\<close>, found from the
  left, is replaced. With an empty \<open>old\<close> Python puts \<open>new\<close> before every character and
  at the end.
\<close>

function replace_from :: "pystr \<Rightarrow> pystr \<Rightarrow> pystr \<Rightarrow> pystr" where
  "replace_from [] old new = []"
| "replace_from (c # cs) old new =
     (if old \<noteq> [] \<and> startswith (c # cs) old
      then new @ replace_from (drop (length old) (c # cs)) old new
      else c # replace_from cs old new)"
  by pat_completeness auto
termination
  by (relation "measure (\<lambda>(s, old, new). length s)") auto

definition replace :: "pystr \<Rightarrow> pystr \<Rightarrow> pystr \<Rightarrow> pystr" where
  "replace s old new =
     (if old = [] then new @ concat (map (\<lambda>c. c # new) s) else replace_from s old new)"

text \<open>
  \<open>str.isspace\<close> of one character, as CPython's \<open>_PyUnicode_IsWhitespace\<close> lists
  them: U+0009..U+000D, U+001C..U+0020, U+0085, U+00A0, U+1680, U+2000..U+200A, U+2028,
  U+2029, U+202F, U+205F, U+3000.
\<close>

definition is_space :: "nat \<Rightarrow> bool" where
  "is_space c =
     ((9 \<le> c \<and> c \<le> 13) \<or> (28 \<le> c \<and> c \<le> 32) \<or> c = 133 \<or> c = 160 \<or> c = 5760
      \<or> (8192 \<le> c \<and> c \<le> 8202) \<or> c = 8232 \<or> c = 8233 \<or> c = 8239 \<or> c = 8287
      \<or> c = 12288)"

text \<open>\<open>s.strip()\<close> removes the white space at both ends.\<close>

definition strip :: "pystr \<Rightarrow> pystr" where
  "strip s = rev (dropWhile is_space (rev (dropWhile is_space s)))"

text \<open>
  \<open>s.lower()\<close>. CPython maps the string character by character: an ASCII capital
  letter to its small letter, every other ASCII character to itself. A character beyond
  ASCII is mapped by the Unicode database of the interpreter (one to three code points,
  and for capital sigma depending on the characters around it); that table is the
  parameter \<open>ucd\<close>, which gets the characters before, the character and the characters
  after. Unicode white space has no case mapping, so it is kept without asking \<open>ucd\<close>.
\<close>

definition ascii_lower :: "nat \<Rightarrow> nat" where
  "ascii_lower c = (if 65 \<le> c \<and> c \<le> 90 then c + 32 else c)"

definition lower_ucs4 :: "(pystr \<Rightarrow> nat \<Rightarrow> pystr \<Rightarrow> pystr) \<Rightarrow> pystr \<Rightarrow> nat \<Rightarrow> pystr \<Rightarrow> pystr" where
  "lower_ucs4 ucd pre c post =
     (if c < 128 \<or> is_space c then [ascii_lower c] else ucd pre c post)"

fun lower_from :: "(pystr \<Rightarrow> nat \<Rightarrow> pystr \<Rightarrow> pystr) \<Rightarrow> pystr \<Rightarrow> pystr \<Rightarrow> pystr" where
  "lower_from ucd pre [] = []"
| "lower_from ucd pre (c # cs) = lower_ucs4 ucd pre c cs @ lower_from ucd (pre @ [c]) cs"

definition lower :: "(pystr \<Rightarrow> nat \<Rightarrow> pystr \<Rightarrow> pystr) \<Rightarrow> pystr \<Rightarrow> pystr" where
  "lower ucd s = lower_from ucd [] s"

text \<open>
  A dictionary with string keys is a map; a dictionary literal is the \<open>map_of\<close> of its
  items. \<open>d.get(k, dflt)\<close>:
\<close>

definition get_default :: "(pystr \<rightharpoonup> 'v) \<Rightarrow> pystr \<Rightarrow> 'v \<Rightarrow> 'v" where
  "get_default d k dflt = (case d k of None \<Rightarrow> dflt | Some v \<Rightarrow> v)"

text \<open>\<open>v or dflt\<close> for an optional string.\<close>

definition or_else :: "pystr option \<Rightarrow> pystr \<Rightarrow> pystr" where
  "or_else v dflt = (case v of None \<Rightarrow> dflt | Some s \<Rightarrow> if s = [] then dflt else s)"

text \<open>What the code can raise.\<close>

datatype exn = ValueError | KeyError | UnicodeDecodeError | ApiError

section \<open>Selection-intent parser (language\_handler.py)\<close>

definition language_map :: "(pystr \<times> pystr) list" where
  "language_map =
     [(ascii ''english'', ascii ''en''),
      (ascii ''tamil'', ascii ''ta''),
      (ascii ''malayalam'', ascii ''ml''),
      (ascii ''en'', ascii ''en''),
      (ascii ''ta'', ascii ''ta''),
      (ascii ''ml'', ascii ''ml'')]"

text \<open>
  The \<open>if payload:\<close> block: the code of a quick reply or button, or \<open>None\<close> when control
  falls through to the message text.
\<close>

definition payload_selection :: "pystr option \<Rightarrow> pystr option" where
  "payload_selection payload =
     (case payload of
        None \<Rightarrow> None
      | Some p \<Rightarrow>
          if p = [] then None
          else if startswith p (ascii ''LANG_'') then Some (replace p (ascii ''LANG_'') [])
          else if startswith p (ascii ''lang_'') then Some (replace p (ascii ''lang_'') [])
          else None)"

definition is_language_selection_response ::
  "(pystr \<Rightarrow> nat \<Rightarrow> pystr \<Rightarrow> pystr) \<Rightarrow> pystr \<Rightarrow> pystr option \<Rightarrow> pystr option" where
  "is_language_selection_response ucd message_text payload =
     (case payload_selection payload of
        Some selected \<Rightarrow> Some selected
      | None \<Rightarrow> map_of language_map (strip (lower ucd message_text)))"

section \<open>The document store\<close>

text \<open>
  The Firestore client \<open>db\<close>. A document is the dictionary \<open>to_dict()\<close> returns. The
  documents of \<open>ss_language_support\<close> are kept in the order \<open>stream()\<close> yields them, each
  with its id; every other document is found by collection name and id. Each of the three
  calls the code makes (\<open>stream\<close>, \<open>get\<close>, \<open>set\<close>) may raise: the flags say which do.
  A value of this type is the store as one call sees it: the two reads of the directory
  that one call can make see the same documents and the same flag. Between calls the
  flags may differ.
\<close>

type_synonym document = "pystr \<rightharpoonup> pystr"

record firestore =
  language_support :: "(pystr \<times> document) list"
  stream_raises :: bool
  documents :: "pystr \<times> pystr \<Rightarrow> document option"
  get_raises :: bool
  set_raises :: bool

section \<open>translation\_utils.py\<close>

record language =
  code :: pystr
  name :: pystr

definition default_languages :: "language list" where
  "default_languages =
     [\<lparr>code = ascii ''en'', name = ascii ''English''\<rparr>,
      \<lparr>code = ascii ''ta'', name = ascii ''Tamil''\<rparr>,
      \<lparr>code = ascii ''ml'', name = ascii ''Malayalam''\<rparr>]"

text \<open>The body of the \<open>try\<close> of \<open>get_supported_languages\<close>.\<close>

definition read_languages :: "firestore \<Rightarrow> exn + language list" where
  "read_languages db =
     (if stream_raises db then Inl ApiError
      else
        let languages =
              map (\<lambda>(doc_id, lang_data).
                     \<lparr>code = get_default lang_data (ascii ''code'') doc_id,
                      name = get_default lang_data (ascii ''name'') doc_id\<rparr>)
                  (language_support db)
        in Inr (if languages = [] then default_languages else languages))"

definition get_supported_languages :: "firestore \<Rightarrow> exn + language list" where
  "get_supported_languages db =
     (case read_languages db of
        Inr languages \<Rightarrow> Inr languages
      | Inl e \<Rightarrow> Inr default_languages)"

text \<open>
  The translation client of the module: \<open>None\<close> when its construction failed at import.
  Both of its methods return a dictionary or raise.
\<close>

record translate_client =
  client_translate :: "pystr \<Rightarrow> pystr \<Rightarrow> pystr option \<Rightarrow> exn + document"
  client_detect_language :: "pystr \<Rightarrow> exn + document"

text \<open>\<open>d[k]\<close>, which raises \<open>KeyError\<close> on a missing key.\<close>

definition subscript :: "document \<Rightarrow> pystr \<Rightarrow> exn + pystr" where
  "subscript d k = (case d k of None \<Rightarrow> Inl KeyError | Some v \<Rightarrow> Inr v)"

definition detect_language :: "translate_client option \<Rightarrow> pystr \<Rightarrow> exn + pystr" where
  "detect_language translate_client text =
     (case translate_client of
        None \<Rightarrow> Inr (ascii ''en'')
      | Some client \<Rightarrow>
          (case (case client_detect_language client text of
                   Inl e \<Rightarrow> Inl e
                 | Inr result \<Rightarrow> subscript result (ascii ''language'')) of
             Inr language_code \<Rightarrow> Inr language_code
           | Inl e \<Rightarrow> Inr (ascii ''en'')))"

definition translate_text ::
  "translate_client option \<Rightarrow> pystr \<Rightarrow> pystr \<Rightarrow> pystr option \<Rightarrow> exn + pystr" where
  "translate_text translate_client text target_language source_language =
     (case translate_client of
        None \<Rightarrow> Inr text
      | Some client \<Rightarrow>
          (case (if target_language = ascii ''en'' \<and> \<not> truthy source_language
                 then (case detect_language translate_client text of
                         Inl e \<Rightarrow> Inl e
                       | Inr detected \<Rightarrow> Inr (detected = ascii ''en''))
                 else Inr False) of
             Inl e \<Rightarrow> Inl e
           | Inr True \<Rightarrow> Inr text
           | Inr False \<Rightarrow>
               (case (case client_translate client text target_language source_language of
                        Inl e \<Rightarrow> Inl e
                      | Inr result \<Rightarrow> subscript result (ascii ''translatedText'')) of
                  Inr translated_text \<Rightarrow> Inr translated_text
                | Inl e \<Rightarrow> Inr text)))"

definition user_collection :: "pystr \<Rightarrow> pystr" where
  "user_collection platform = ascii ''ss_'' @ platform @ ascii ''_user_details''"

definition get_user_language :: "firestore \<Rightarrow> pystr \<Rightarrow> pystr \<Rightarrow> exn + pystr option" where
  "get_user_language db platform user_id =
     (case (if get_raises db then Inl ApiError
            else (case documents db (user_collection platform, user_id) of
                    Some user_data \<Rightarrow> Inr (user_data (ascii ''preferred_language''))
                  | None \<Rightarrow> Inr None)) of
        Inr language \<Rightarrow> Inr language
      | Inl e \<Rightarrow> Inr None)"

text \<open>\<open>user_ref.set(fields, merge=True)\<close>: the other fields of the document stay.\<close>

definition set_merge :: "firestore \<Rightarrow> pystr \<times> pystr \<Rightarrow> document \<Rightarrow> exn + firestore" where
  "set_merge db ref data =
     (if set_raises db then Inl ApiError
      else Inr (db\<lparr>documents := (documents db)
                   (ref \<mapsto> (case documents db ref of
                               None \<Rightarrow> data
                             | Some old \<Rightarrow> old ++ data))\<rparr>))"

definition set_user_language ::
  "firestore \<Rightarrow> pystr \<Rightarrow> pystr \<Rightarrow> pystr \<Rightarrow> (exn + bool) \<times> firestore" where
  "set_user_language db platform user_id language_code =
     (case set_merge db (user_collection platform, user_id)
             [ascii ''preferred_language'' \<mapsto> language_code] of
        Inr db' \<Rightarrow> (Inr True, db')
      | Inl e \<Rightarrow> (Inr False, db))"

definition is_language_supported :: "firestore \<Rightarrow> pystr \<Rightarrow> exn + bool" where
  "is_language_supported db language_code =
     (case get_supported_languages db of
        Inl e \<Rightarrow> Inl e
      | Inr supported_languages \<Rightarrow>
          let supported_codes = map code supported_languages
          in Inr (language_code \<in> set supported_codes))"

section \<open>bedrock\_utils.py\<close>

text \<open>
  What the agent runtime sends back: \<open>response.get('completion', [])\<close> is a stream of
  events, and reading the stream may raise at any event. An event may hold a chunk, and a
  chunk may hold bytes.
\<close>

type_synonym bytes = "nat list"

datatype event = Chunk "bytes option" | Other

text \<open>The loop over the event stream, with the text read so far.\<close>

fun read_completion :: "(bytes \<Rightarrow> exn + pystr) \<Rightarrow> pystr \<Rightarrow> (exn + event) list \<Rightarrow> exn + pystr" where
  "read_completion decode completion [] = Inr completion"
| "read_completion decode completion (Inl e # events) = Inl e"
| "read_completion decode completion (Inr (Chunk (Some b)) # events) =
     (case decode b of
        Inl e \<Rightarrow> Inl e
      | Inr t \<Rightarrow> read_completion decode (completion @ t) events)"
| "read_completion decode completion (Inr (Chunk None) # events) =
     read_completion decode completion events"
| "read_completion decode completion (Inr Other # events) =
     read_completion decode completion events"

record agent_response =
  completion :: "(exn + event) list option"

text \<open>
  The process around the module: the Unicode table behind \<open>str.lower\<close>, the translation
  client, the environment variables, \<open>bytes.decode('utf-8')\<close>, and \<open>boto3.client\<close>, which
  (given region, access key and secret key) raises or gives a client, taken here as its
  \<open>invoke_agent\<close> method of agent id, alias id, session id and input text.
\<close>

record env =
  unicode_lower :: "pystr \<Rightarrow> nat \<Rightarrow> pystr \<Rightarrow> pystr"
  translate_client :: "translate_client option"
  environ :: "pystr \<rightharpoonup> pystr"
  decode_utf8 :: "bytes \<Rightarrow> exn + pystr"
  boto3_client ::
    "pystr \<Rightarrow> pystr \<Rightarrow> pystr \<Rightarrow> exn + (pystr \<Rightarrow> pystr \<Rightarrow> pystr \<Rightarrow> pystr \<Rightarrow> exn + agent_response)"

definition get_config :: "env \<Rightarrow> pystr \<Rightarrow> pystr option" where
  "get_config e key = environ e key"

definition get_bedrock_client ::
  "env \<Rightarrow> exn + (pystr \<Rightarrow> pystr \<Rightarrow> pystr \<Rightarrow> pystr \<Rightarrow> exn + agent_response)" where
  "get_bedrock_client e =
     (let aws_access_key = get_config e (ascii ''AWS_ACCESS_KEY'');
          aws_secret_key = get_config e (ascii ''AWS_SECRET_KEY'');
          aws_region = or_else (get_config e (ascii ''AWS_REGION'')) (ascii ''us-east-1'')
      in if \<not> truthy aws_access_key \<or> \<not> truthy aws_secret_key then Inl ValueError
         else boto3_client e aws_region (or_else aws_access_key []) (or_else aws_secret_key []))"

definition invoke_bedrock_agent ::
  "env \<Rightarrow> pystr \<Rightarrow> pystr \<Rightarrow> pystr option \<Rightarrow> exn + document" where
  "invoke_bedrock_agent e user_message session_id user_id =
     (let agent_id = get_config e (ascii ''AWS_BEDROCK_AGENT_ID'');
          agent_alias_id = get_config e (ascii ''AWS_BEDROCK_AGENT_ALIAS_ID'')
      in if \<not> truthy agent_id \<or> \<not> truthy agent_alias_id then Inl ValueError
         else
           (case get_bedrock_client e of
              Inl err \<Rightarrow> Inl err
            | Inr invoke_agent \<Rightarrow>
                (case invoke_agent (or_else agent_id []) (or_else agent_alias_id [])
                        session_id user_message of
                   Inl err \<Rightarrow> Inl err
                 | Inr response \<Rightarrow>
                     (case read_completion (decode_utf8 e) []
                             (case completion response of None \<Rightarrow> [] | Some events \<Rightarrow> events) of
                        Inl err \<Rightarrow> Inl err
                      | Inr text \<Rightarrow>
                          Inr [ascii ''response'' \<mapsto> strip text,
                               ascii ''session_id'' \<mapsto> session_id]))))"

section \<open>language\_handler.py\<close>

record quick_reply =
  qr_title :: pystr
  qr_payload :: pystr

record button =
  button_id :: pystr
  button_title :: pystr

record descriptor =
  response :: pystr
  quick_replies :: "quick_reply list option"
  buttons :: "button list option"

text \<open>
  The string literals of the module, as code points. \<open>prompt_text\<close> is line 34 of the
  source: \<open>Welcome!\<close>, the globe U+1F30D, two line feeds, the English question, and
  after a line feed each the Tamil and the Malayalam question. The confirmations (lines
  132 to 134) begin with the check mark U+2705, the error messages (lines 182 to 184)
  with the cross mark U+274C, each followed by a space and the sentence.
\<close>

definition prompt_text :: pystr where
  "prompt_text =
     [87, 101, 108, 99, 111, 109, 101, 33, 32, 127757, 10, 10, 87, 104, 97, 116, 39,
      115, 32, 121, 111, 117, 114, 32, 112, 114, 101, 102, 101, 114, 114, 101, 100, 32,
      108, 97, 110, 103, 117, 97, 103, 101, 63, 10, 2953, 2969, 3021, 2965, 2995, 3021,
      32, 2997, 3007, 2992, 3009, 2986, 3021, 2986, 32, 2990, 3018, 2996, 3007, 32,
      2958, 2985, 3021, 2985, 63, 10, 3368, 3391, 3353, 3405, 3353, 3379, 3393, 3359,
      3398, 32, 3335, 3383, 3405, 3359, 3374, 3393, 3379, 3405, 3379, 32, 3373, 3390,
      3383, 32, 3342, 3368, 3405, 3364, 3390, 3363, 3405, 63]"

definition create_language_selection_prompt ::
  "firestore \<Rightarrow> exn + pystr \<times> quick_reply list \<times> button list" where
  "create_language_selection_prompt db =
     (case get_supported_languages db of
        Inl e \<Rightarrow> Inl e
      | Inr supported_languages \<Rightarrow>
          Inr (prompt_text,
               map (\<lambda>lang. \<lparr>qr_title = name lang, qr_payload = ascii ''LANG_'' @ code lang\<rparr>)
                   supported_languages,
               map (\<lambda>lang. \<lparr>button_id = ascii ''lang_'' @ code lang, button_title = name lang\<rparr>)
                   (take 3 supported_languages)))"

definition confirmation_en :: pystr where
  "confirmation_en =
     [9989, 32, 76, 97, 110, 103, 117, 97, 103, 101, 32, 115, 101, 116, 32, 116, 111,
      32, 69, 110, 103, 108, 105, 115, 104, 33, 32, 72, 111, 119, 32, 99, 97, 110, 32,
      73, 32, 104, 101, 108, 112, 32, 121, 111, 117, 32, 116, 111, 100, 97, 121, 63]"

definition confirmation_ta :: pystr where
  "confirmation_ta =
     [9989, 32, 2990, 3018, 2996, 3007, 32, 2980, 2990, 3007, 2996, 3021, 32, 2958,
      2985, 32, 2949, 2990, 3016, 2965, 3021, 2965, 2986, 3021, 2986, 2975, 3021, 2975,
      2980, 3009, 33, 32, 2951, 2985, 3021, 2993, 3009, 32, 2984, 3006, 2985, 3021, 32,
      2953, 2969, 3021, 2965, 2995, 3009, 2965, 3021, 2965, 3009, 32, 2958, 2986, 3021,
      2986, 2975, 3007, 32, 2953, 2980, 2997, 32, 2990, 3009, 2975, 3007, 2991, 3009,
      2990, 3021, 63]"

definition confirmation_ml :: pystr where
  "confirmation_ml =
     [9989, 32, 3373, 3390, 3383, 32, 3374, 3378, 3375, 3390, 3379, 3330, 32, 3334,
      3375, 3391, 32, 3384, 3356, 3405, 3356, 3374, 3390, 3349, 3405, 3349, 3391, 33,
      32, 3335, 3368, 3405, 3368, 3405, 32, 3358, 3390, 3451, 32, 3368, 3391, 3353,
      3405, 3353, 3379, 3398, 32, 3342, 3353, 3405, 3353, 3368, 3398, 32, 3384, 3385,
      3390, 3375, 3391, 3349, 3405, 3349, 3393, 3330, 63]"

definition confirmations :: "(pystr \<times> pystr) list" where
  "confirmations =
     [(ascii ''en'', confirmation_en),
      (ascii ''ta'', confirmation_ta),
      (ascii ''ml'', confirmation_ml)]"

definition error_en :: pystr where
  "error_en =
     [10060, 32, 83, 111, 114, 114, 121, 44, 32, 73, 32, 101, 110, 99, 111, 117, 110,
      116, 101, 114, 101, 100, 32, 97, 110, 32, 101, 114, 114, 111, 114, 46, 32, 80,
      108, 101, 97, 115, 101, 32, 116, 114, 121, 32, 97, 103, 97, 105, 110, 46]"

definition error_ta :: pystr where
  "error_ta =
     [10060, 32, 2990, 2985, 3021, 2985, 3007, 2965, 3021, 2965, 2997, 3009, 2990, 3021,
      44, 32, 2962, 2992, 3009, 32, 2986, 3007, 2996, 3016, 32, 2959, 2993, 3021, 2986,
      2975, 3021, 2975, 2980, 3009, 46, 32, 2990, 3008, 2979, 3021, 2975, 3009, 2990,
      3021, 32, 2990, 3009, 2991, 2993, 3021, 2970, 3007, 2965, 3021, 2965, 2997, 3009,
      2990, 3021, 46]"

definition error_ml :: pystr where
  "error_ml =
     [10060, 32, 3349, 3405, 3383, 3374, 3391, 3349, 3405, 3349, 3363, 3330, 44, 32,
      3342, 3368, 3391, 3349, 3405, 3349, 3405, 32, 3346, 3376, 3393, 32, 3370, 3391,
      3382, 3349, 3405, 32, 3368, 3399, 3376, 3391, 3359, 3405, 3359, 3393, 46, 32,
      3381, 3392, 3363, 3405, 3359, 3393, 3330, 32, 3382, 3405, 3376, 3374, 3391, 3349,
      3405, 3349, 3393, 3349, 46]"

definition error_messages :: "(pystr \<times> pystr) list" where
  "error_messages =
     [(ascii ''en'', error_en),
      (ascii ''ta'', error_ta),
      (ascii ''ml'', error_ml)]"

text \<open>
  The calls \<open>process_message_with_translation\<close> makes to the translation gateway and to
  the agent gateway are recorded, with their arguments, in the order they are made.
\<close>

datatype call =
    TranslateText pystr pystr "pystr option"
  | InvokeBedrockAgent pystr pystr "pystr option"

text \<open>\<open>selected_lang and is_language_supported(db, selected_lang)\<close>.\<close>

definition selection_supported :: "firestore \<Rightarrow> pystr option \<Rightarrow> exn + bool" where
  "selection_supported db selected_lang =
     (case selected_lang of
        None \<Rightarrow> Inr False
      | Some lang \<Rightarrow> if lang = [] then Inr False else is_language_supported db lang)"

text \<open>Case 1 of the source: the user has not selected a language yet.\<close>

definition awaiting_language ::
  "env \<Rightarrow> firestore \<Rightarrow> pystr \<Rightarrow> pystr \<Rightarrow> pystr \<Rightarrow> pystr option
     \<Rightarrow> (exn + descriptor) \<times> firestore" where
  "awaiting_language e db platform user_id message_text payload =
     (let selected_lang = is_language_selection_response (unicode_lower e) message_text payload
      in case selection_supported db selected_lang of
           Inl err \<Rightarrow> (Inl err, db)
         | Inr True \<Rightarrow>
             (case set_user_language db platform user_id (or_else selected_lang []) of
                (Inl err, db') \<Rightarrow> (Inl err, db')
              | (Inr saved, db') \<Rightarrow>
                  (Inr \<lparr>response = get_default (map_of confirmations) (or_else selected_lang [])
                                     confirmation_en,
                        quick_replies = None, buttons = None\<rparr>, db'))
         | Inr False \<Rightarrow>
             (case create_language_selection_prompt db of
                Inl err \<Rightarrow> (Inl err, db)
              | Inr (text, replies, btns) \<Rightarrow>
                  (Inr \<lparr>response = text, quick_replies = Some replies, buttons = Some btns\<rparr>,
                   db)))"

text \<open>The body of the \<open>try\<close> of case 2, with the gateway calls it has made.\<close>

definition translation_pipeline ::
  "env \<Rightarrow> pystr \<Rightarrow> pystr \<Rightarrow> pystr \<Rightarrow> (exn + descriptor) \<times> call list" where
  "translation_pipeline e user_id message_text user_language =
     (let step1 =
            (if user_language \<noteq> ascii ''en''
             then (translate_text (translate_client e) message_text (ascii ''en'')
                     (Some user_language),
                   [TranslateText message_text (ascii ''en'') (Some user_language)])
             else (Inr message_text, []))
      in case fst step1 of
           Inl err \<Rightarrow> (Inl err, snd step1)
         | Inr english_message \<Rightarrow>
             (let calls2 = snd step1 @ [InvokeBedrockAgent english_message user_id (Some user_id)]
              in case invoke_bedrock_agent e english_message user_id (Some user_id) of
                   Inl err \<Rightarrow> (Inl err, calls2)
                 | Inr agent_result \<Rightarrow>
                     (let english_response = get_default agent_result (ascii ''response'') []
                      in if user_language \<noteq> ascii ''en''
                         then
                           (case translate_text (translate_client e) english_response
                                   user_language (Some (ascii ''en'')) of
                              Inl err \<Rightarrow>
                                (Inl err,
                                 calls2 @ [TranslateText english_response user_language
                                             (Some (ascii ''en''))])
                            | Inr translated_response \<Rightarrow>
                                (Inr \<lparr>response = translated_response,
                                      quick_replies = None, buttons = None\<rparr>,
                                 calls2 @ [TranslateText english_response user_language
                                             (Some (ascii ''en''))]))
                         else
                           (Inr \<lparr>response = english_response,
                                 quick_replies = None, buttons = None\<rparr>, calls2))))"

text \<open>Case 2 of the source: the \<open>try\<close> with its handler.\<close>

definition active ::
  "env \<Rightarrow> pystr \<Rightarrow> pystr \<Rightarrow> pystr \<Rightarrow> (exn + descriptor) \<times> call list" where
  "active e user_id message_text user_language =
     (case translation_pipeline e user_id message_text user_language of
        (Inr result, calls) \<Rightarrow> (Inr result, calls)
      | (Inl err, calls) \<Rightarrow>
          (Inr \<lparr>response = get_default (map_of error_messages) user_language error_en,
                quick_replies = None, buttons = None\<rparr>, calls))"

text \<open>
  The entry point. It gives the descriptor or the exception that leaves the function, the
  store after the call, and the gateway calls made.
\<close>

definition process_message_with_translation ::
  "env \<Rightarrow> firestore \<Rightarrow> pystr \<Rightarrow> pystr \<Rightarrow> pystr \<Rightarrow> pystr option
     \<Rightarrow> (exn + descriptor) \<times> firestore \<times> call list" where
  "process_message_with_translation e db platform user_id message_text payload =
     (case get_user_language db platform user_id of
        Inl err \<Rightarrow> (Inl err, db, [])
      | Inr user_language \<Rightarrow>
          if \<not> truthy user_language
          then (case awaiting_language e db platform user_id message_text payload of
                  (result, db') \<Rightarrow> (result, db', []))
          else (case active e user_id message_text (or_else user_language []) of
                  (result, calls) \<Rightarrow> (result, db, calls)))"

section \<open>Observing the store\<close>

text \<open>
  The preference a user's document holds, whether or not a read of it would succeed; the
  key is the collection name and the document id.
\<close>

definition stored_preference :: "firestore \<Rightarrow> pystr \<times> pystr \<Rightarrow> pystr option" where
  "stored_preference db ref =
     (case documents db ref of None \<Rightarrow> None | Some user_data \<Rightarrow> user_data (ascii ''preferred_language''))"

section \<open>Example worlds\<close>

text \<open>
  A process with no translation client and no agent configuration, and one where both
  work: the translation client puts the target code and a colon before the text, the
  agent sends the input text back in one chunk. In the last one the agent works and every
  call of the translation client raises.
\<close>

definition bare_env :: env where
  "bare_env =
     \<lparr>unicode_lower = (\<lambda>pre c post. [c]),
      translate_client = None,
      environ = (\<lambda>key. None),
      decode_utf8 = (\<lambda>b. Inr b),
      boto3_client = (\<lambda>region access_key secret_key. Inl ApiError)\<rparr>"

definition tagging_client :: translate_client where
  "tagging_client =
     \<lparr>client_translate =
        (\<lambda>t target source. Inr [ascii ''translatedText'' \<mapsto> target @ [58] @ t]),
      client_detect_language = (\<lambda>t. Inr [ascii ''language'' \<mapsto> ascii ''en''])\<rparr>"

definition broken_client :: translate_client where
  "broken_client =
     \<lparr>client_translate = (\<lambda>t target source. Inl ApiError),
      client_detect_language = (\<lambda>t. Inl ApiError)\<rparr>"

definition echo_env :: env where
  "echo_env =
     \<lparr>unicode_lower = (\<lambda>pre c post. [c]),
      translate_client = Some tagging_client,
      environ =
        [ascii ''AWS_BEDROCK_AGENT_ID'' \<mapsto> ascii ''agent'',
         ascii ''AWS_BEDROCK_AGENT_ALIAS_ID'' \<mapsto> ascii ''alias'',
         ascii ''AWS_ACCESS_KEY'' \<mapsto> ascii ''key'',
         ascii ''AWS_SECRET_KEY'' \<mapsto> ascii ''secret''],
      decode_utf8 = (\<lambda>b. Inr b),
      boto3_client =
        (\<lambda>region access_key secret_key.
           Inr (\<lambda>agent_id agent_alias_id session_id input_text.
                  Inr \<lparr>completion = Some [Inr (Chunk (Some input_text))]\<rparr>))\<rparr>"

definition broken_echo_env :: env where
  "broken_echo_env = echo_env\<lparr>translate_client := Some broken_client\<rparr>"

text \<open>
  Stores: an empty one; one whose writes fail; one that holds the preference \<open>ta\<close> of
  user \<open>u1\<close> on \<open>facebook\<close>; one that holds the preference \<open>en\<close>; and the first of
  these two with its reads failing.
\<close>

definition empty_store :: firestore where
  "empty_store =
     \<lparr>language_support = [], stream_raises = False, documents = (\<lambda>ref. None),
      get_raises = False, set_raises = False\<rparr>"

definition readonly_store :: firestore where
  "readonly_store = empty_store\<lparr>set_raises := True\<rparr>"

definition tamil_store :: firestore where
  "tamil_store =
     empty_store\<lparr>documents :=
       [(ascii ''ss_facebook_user_details'', ascii ''u1'') \<mapsto>
          [ascii ''preferred_language'' \<mapsto> ascii ''ta'']]\<rparr>"

definition english_store :: firestore where
  "english_store =
     empty_store\<lparr>documents :=
       [(ascii ''ss_facebook_user_details'', ascii ''u1'') \<mapsto>
          [ascii ''preferred_language'' \<mapsto> ascii ''en'']]\<rparr>"

definition unreadable_store :: firestore where
  "unreadable_store = tamil_store\<lparr>get_raises := True\<rparr>"

section \<open>Properties of the string operations\<close>

lemma replace_from_absent:
  assumes "old \<noteq> []" and "\<And>i. \<not> startswith (drop i s) old"
  shows "replace_from s old new = s"
  using assms(2)
proof (induction s)
  case Nil
  then show ?case by simp
next
  case (Cons c cs)
  have here: "\<not> startswith (c # cs) old"
    using Cons.prems [of 0] by simp
  have later: "\<And>i. \<not> startswith (drop i cs) old"
    using Cons.prems [of "Suc i" for i] by simp
  show ?case
    using here Cons.IH [OF later] by simp
qed

text \<open>
  When the prefix does not occur again in the rest of the string, \<open>replace\<close> with the
  empty string does strip the prefix and nothing else.
\<close>

lemma replace_prefix_once:
  assumes "p \<noteq> []" and "\<And>i. \<not> startswith (drop i rest) p"
  shows "replace (p @ rest) p [] = rest"
proof -
  obtain c cs where p: "p = c # cs"
    using assms(1) by (cases p) auto
  have "replace_from (p @ rest) p [] = replace_from rest p []"
    by (simp add: p startswith_def)
  then show ?thesis
    using replace_from_absent [OF assms] assms(1) by (simp add: replace_def)
qed

lemma lower_from_plain:
  "\<forall>c \<in> set s. c < 128 \<or> is_space c \<Longrightarrow> lower_from ucd pre s = map ascii_lower s"
  by (induction s arbitrary: pre) (auto simp: lower_ucs4_def)

lemma ascii_lower_space: "is_space c \<Longrightarrow> ascii_lower c = c"
  by (auto simp: is_space_def ascii_lower_def)

lemma ascii_lower_small: "ascii_lower c < 128 \<Longrightarrow> c < 128"
  by (auto simp: ascii_lower_def split: if_splits)

lemma strip_surrounded:
  assumes "\<forall>c \<in> set ws1. is_space c" and "\<forall>c \<in> set ws2. is_space c"
    and "k \<noteq> []" and "\<not> is_space (hd k)" and "\<not> is_space (last k)"
  shows "strip (ws1 @ k @ ws2) = k"
proof -
  have front: "dropWhile is_space (ws1 @ k @ ws2) = k @ ws2"
    using assms(1,3,4) by (cases k) (auto simp: dropWhile_append3 dropWhile_append)
  have rear: "dropWhile is_space (rev ws2 @ rev k) = rev k"
    using assms(2,3,5) by (cases "rev k") (auto simp: dropWhile_append last_rev hd_rev)
  show ?thesis
    by (simp add: strip_def front rear)
qed

text \<open>
  A text that is white space, then a word of ASCII letters, then white space: lower-cased
  and stripped it is the word in small letters.
\<close>

lemma strip_lower_surrounded:
  assumes ws: "\<forall>c \<in> set ws1. is_space c" "\<forall>c \<in> set ws2. is_space c"
    and word: "map ascii_lower m = k" "\<forall>c \<in> set k. c < 128"
    and ends: "k \<noteq> []" "\<not> is_space (hd k)" "\<not> is_space (last k)"
  shows "strip (lower ucd (ws1 @ m @ ws2)) = k"
proof -
  have "\<forall>c \<in> set m. c < 128"
    using word by (auto intro: ascii_lower_small)
  then have plain: "\<forall>c \<in> set (ws1 @ m @ ws2). c < 128 \<or> is_space c"
    using ws by auto
  have "map ascii_lower ws1 = ws1" and "map ascii_lower ws2 = ws2"
    using ws by (simp_all add: map_idI ascii_lower_space)
  then have "lower ucd (ws1 @ m @ ws2) = ws1 @ k @ ws2"
    using lower_from_plain [OF plain] word(1) by (simp add: lower_def)
  then show ?thesis
    using strip_surrounded [OF ws ends] by simp
qed

section \<open>The selection-intent parser\<close>

text \<open>
  Claim C4. A payload that begins with \<open>LANG_\<close> or \<open>lang_\<close> should give the rest of the
  payload after that leading prefix, verbatim. The code removes the prefix with
  \<open>str.replace\<close>, which removes every occurrence: for the payload \<open>LANG_LANG_ta\<close> the
  rest after the leading prefix is \<open>LANG_ta\<close>, and the parser returns \<open>ta\<close>.
\<close>

theorem parse_payload_removes_every_prefix:
  "is_language_selection_response ucd message_text (Some (ascii ''LANG_LANG_ta''))
     = Some (ascii ''ta'')
   \<and> startswith (ascii ''LANG_LANG_ta'') (ascii ''LANG_'')
   \<and> drop (length (ascii ''LANG_'')) (ascii ''LANG_LANG_ta'') = ascii ''LANG_ta''
   \<and> ascii ''ta'' \<noteq> ascii ''LANG_ta''"
  by (simp add: is_language_selection_response_def payload_selection_def replace_def
      startswith_def ascii_def)

text \<open>
  Claim C8. When the payload is absent, empty or begins with neither prefix, the parser
  lower-cases the message text, strips it and looks it up in the fixed map: \<open>english\<close> and
  \<open>en\<close> give \<open>en\<close>, \<open>tamil\<close> and \<open>ta\<close> give \<open>ta\<close>, \<open>malayalam\<close> and \<open>ml\<close> give \<open>ml\<close>, any
  other text gives \<open>None\<close>. In particular the word Malayalam in any mix of capital and
  small letters, with white space around it, gives \<open>ml\<close>, which is what the payload
  \<open>LANG_ml\<close> gives.
\<close>

theorem parse_free_text:
  assumes "\<forall>p. payload = Some p \<longrightarrow>
             \<not> startswith p (ascii ''LANG_'') \<and> \<not> startswith p (ascii ''lang_'')"
  shows "is_language_selection_response ucd message_text payload =
           (let t = strip (lower ucd message_text)
            in if t = ascii ''english'' \<or> t = ascii ''en'' then Some (ascii ''en'')
               else if t = ascii ''tamil'' \<or> t = ascii ''ta'' then Some (ascii ''ta'')
               else if t = ascii ''malayalam'' \<or> t = ascii ''ml'' then Some (ascii ''ml'')
               else None)
         \<and> ((\<forall>c \<in> set ws1. is_space c) \<and> (\<forall>c \<in> set ws2. is_space c)
              \<and> map ascii_lower m = ascii ''malayalam'' \<and> message_text = ws1 @ m @ ws2
             \<longrightarrow> is_language_selection_response ucd message_text payload = Some (ascii ''ml'')
                 \<and> is_language_selection_response ucd other_text (Some (ascii ''LANG_ml''))
                     = is_language_selection_response ucd message_text payload)"
proof -
  have fall: "payload_selection payload = None"
    using assms by (auto simp: payload_selection_def split: option.splits)
  have table: "is_language_selection_response ucd message_text payload =
           (let t = strip (lower ucd message_text)
            in if t = ascii ''english'' \<or> t = ascii ''en'' then Some (ascii ''en'')
               else if t = ascii ''tamil'' \<or> t = ascii ''ta'' then Some (ascii ''ta'')
               else if t = ascii ''malayalam'' \<or> t = ascii ''ml'' then Some (ascii ''ml'')
               else None)"
    by (simp add: is_language_selection_response_def fall language_map_def ascii_def Let_def)
  have button: "is_language_selection_response ucd other_text (Some (ascii ''LANG_ml''))
                  = Some (ascii ''ml'')"
    by (simp add: is_language_selection_response_def payload_selection_def replace_def
        startswith_def ascii_def)
  have word: "is_language_selection_response ucd message_text payload = Some (ascii ''ml'')"
    if ws: "\<forall>c \<in> set ws1. is_space c" "\<forall>c \<in> set ws2. is_space c"
      and m: "map ascii_lower m = ascii ''malayalam''" and shape: "message_text = ws1 @ m @ ws2"
  proof -
    have "strip (lower ucd (ws1 @ m @ ws2)) = ascii ''malayalam''"
      by (rule strip_lower_surrounded [OF ws m]) (simp_all add: ascii_def is_space_def)
    then show ?thesis
      using table shape by (simp add: ascii_def)
  qed
  show ?thesis
    using table button word by simp
qed

theorem parse_free_text_witness:
  "is_space 32 \<and> is_space 9 \<and> is_space 10
   \<and> map ascii_lower (ascii ''MaLaYALAM'') = ascii ''malayalam''
   \<and> is_language_selection_response (\<lambda>pre c post. [c])
         ([32, 9] @ ascii ''MaLaYALAM'' @ [10]) None = Some (ascii ''ml'')
   \<and> is_language_selection_response (\<lambda>pre c post. [c]) (ascii ''hello'') None = None"
proof -
  have none: "\<forall>p. (None :: pystr option) = Some p \<longrightarrow>
        \<not> startswith p (ascii ''LANG_'') \<and> \<not> startswith p (ascii ''lang_'')"
    by simp
  have ws: "(\<forall>c \<in> set [32, 9]. is_space c) \<and> (\<forall>c \<in> set [10]. is_space c)"
    by (simp add: is_space_def)
  have m: "map ascii_lower (ascii ''MaLaYALAM'') = ascii ''malayalam''"
    by (simp add: ascii_def ascii_lower_def)
  have hello: "strip (lower ucd (ascii ''hello'')) = ascii ''hello''" for ucd
    by (simp add: strip_def lower_def lower_ucs4_def ascii_lower_def is_space_def ascii_def)
  have "is_language_selection_response (\<lambda>pre c post. [c]) (ascii ''hello'') None = None"
    using parse_free_text [OF none, of "\<lambda>pre c post. [c]" "ascii ''hello''"]
    by (simp add: hello Let_def) (simp add: ascii_def)
  moreover have "is_language_selection_response (\<lambda>pre c post. [c])
      ([32, 9] @ ascii ''MaLaYALAM'' @ [10]) None = Some (ascii ''ml'')"
    using parse_free_text [OF none, of "\<lambda>pre c post. [c]" "[32, 9] @ ascii ''MaLaYALAM'' @ [10]"
        "[32, 9]" "[10]" "ascii ''MaLaYALAM''"] ws m
    by blast
  ultimately show ?thesis
    using ws m by simp
qed

section \<open>Language directory and translation gateway\<close>

text \<open>
  Claim C6. \<open>get_supported_languages\<close> never raises and never returns an empty list; when
  the read of the collection raises or yields no document it returns the three fallback
  entries English (en), Tamil (ta), Malayalam (ml), in that order.
\<close>

theorem supported_languages_fallback:
  "(\<exists>languages. get_supported_languages db = Inr languages \<and> languages \<noteq> [])
   \<and> (stream_raises db \<or> language_support db = [] \<longrightarrow>
        get_supported_languages db =
          Inr [\<lparr>code = ascii ''en'', name = ascii ''English''\<rparr>,
               \<lparr>code = ascii ''ta'', name = ascii ''Tamil''\<rparr>,
               \<lparr>code = ascii ''ml'', name = ascii ''Malayalam''\<rparr>])"
  by (auto simp: get_supported_languages_def read_languages_def default_languages_def Let_def)

theorem supported_languages_fallback_witness:
  "stream_raises (empty_store\<lparr>stream_raises := True\<rparr>)
   \<and> get_supported_languages (empty_store\<lparr>stream_raises := True\<rparr>) =
       Inr [\<lparr>code = ascii ''en'', name = ascii ''English''\<rparr>,
            \<lparr>code = ascii ''ta'', name = ascii ''Tamil''\<rparr>,
            \<lparr>code = ascii ''ml'', name = ascii ''Malayalam''\<rparr>]
   \<and> language_support empty_store = []
   \<and> get_supported_languages empty_store =
       Inr [\<lparr>code = ascii ''en'', name = ascii ''English''\<rparr>,
            \<lparr>code = ascii ''ta'', name = ascii ''Tamil''\<rparr>,
            \<lparr>code = ascii ''ml'', name = ascii ''Malayalam''\<rparr>]"
  using supported_languages_fallback [of "empty_store\<lparr>stream_raises := True\<rparr>"]
    supported_languages_fallback [of empty_store]
  by (simp add: empty_store_def)

lemma get_supported_languages_total:
  "\<exists>languages. get_supported_languages db = Inr languages \<and> languages \<noteq> []"
  by (auto simp: get_supported_languages_def read_languages_def default_languages_def Let_def)

lemma get_user_language_total: "\<exists>pref. get_user_language db platform user_id = Inr pref"
  by (auto simp: get_user_language_def split: option.splits)

lemma is_language_supported_total: "\<exists>b. is_language_supported db lang = Inr b"
  using get_supported_languages_total [of db] by (auto simp: is_language_supported_def)

lemma detect_language_total: "\<exists>c. detect_language tc t = Inr c"
  by (auto simp: detect_language_def split: option.splits sum.splits)

text \<open>
  Claim C7. \<open>translate_text\<close> never raises; when the client is missing (its construction
  failed), when the client's \<open>translate\<close> raises, or when its result has no
  \<open>translatedText\<close>, the input text comes back unchanged.
\<close>

theorem translate_text_fails_open:
  "(\<exists>r. translate_text tc t target source = Inr r)
   \<and> (tc = None \<longrightarrow> translate_text tc t target source = Inr t)
   \<and> (\<forall>client. tc = Some client \<longrightarrow>
        (\<exists>e. client_translate client t target source = Inl e)
        \<or> (\<exists>result. client_translate client t target source = Inr result
              \<and> result (ascii ''translatedText'') = None)
        \<longrightarrow> translate_text tc t target source = Inr t)"
  using detect_language_total [of tc t]
  by (auto simp: translate_text_def subscript_def split: option.splits sum.splits bool.splits)

theorem translate_text_fails_open_witness:
  "translate_text None (ascii ''hello'') (ascii ''ta'') (Some (ascii ''en'')) = Inr (ascii ''hello'')
   \<and> client_translate broken_client (ascii ''hello'') (ascii ''ta'') None = Inl ApiError
   \<and> translate_text (Some broken_client) (ascii ''hello'') (ascii ''ta'') None
       = Inr (ascii ''hello'')"
  using translate_text_fails_open [of None "ascii ''hello''" "ascii ''ta''" "Some (ascii ''en'')"]
    translate_text_fails_open [of "Some broken_client" "ascii ''hello''" "ascii ''ta''" None]
  by (simp add: broken_client_def)

section \<open>The conversation workflow\<close>

lemma translate_text_total: "\<exists>r. translate_text tc t target source = Inr r"
  using detect_language_total [of tc t]
  by (auto simp: translate_text_def split: option.splits sum.splits bool.splits)

lemma set_user_language_cases:
  "set_user_language db platform user_id lang =
     (if set_raises db then (Inr False, db)
      else (Inr True,
            db\<lparr>documents := (documents db)
                 ((user_collection platform, user_id) \<mapsto>
                    (case documents db (user_collection platform, user_id) of
                       None \<Rightarrow> [ascii ''preferred_language'' \<mapsto> lang]
                     | Some old \<Rightarrow> old(ascii ''preferred_language'' \<mapsto> lang)))\<rparr>))"
  by (auto simp: set_user_language_def set_merge_def split: option.splits intro!: ext)

lemma confirmation_lookup:
  "get_default (map_of confirmations) lang confirmation_en =
     (if lang = ascii ''ta'' then confirmation_ta
      else if lang = ascii ''ml'' then confirmation_ml else confirmation_en)"
  by (simp add: get_default_def confirmations_def ascii_def)

lemma error_lookup:
  "get_default (map_of error_messages) lang error_en =
     (if lang = ascii ''ta'' then error_ta
      else if lang = ascii ''ml'' then error_ml else error_en)"
  by (simp add: get_default_def error_messages_def ascii_def)

lemma awaiting_selected:
  assumes "is_language_selection_response (unicode_lower e) message_text payload = Some selected"
    and "selected \<noteq> []" and "is_language_supported db selected = Inr True"
  shows "awaiting_language e db platform user_id message_text payload =
           (Inr \<lparr>response = get_default (map_of confirmations) selected confirmation_en,
                 quick_replies = None, buttons = None\<rparr>,
            snd (set_user_language db platform user_id selected))"
  using assms
  by (simp add: awaiting_language_def selection_supported_def or_else_def set_user_language_cases Let_def)

lemma awaiting_prompt:
  assumes "\<not> (\<exists>selected. is_language_selection_response (unicode_lower e) message_text payload
                  = Some selected \<and> selected \<noteq> [] \<and> is_language_supported db selected = Inr True)"
    and "get_supported_languages db = Inr languages"
  shows "awaiting_language e db platform user_id message_text payload =
           (Inr \<lparr>response = prompt_text,
                 quick_replies =
                   Some (map (\<lambda>lang. \<lparr>qr_title = name lang, qr_payload = ascii ''LANG_'' @ code lang\<rparr>)
                           languages),
                 buttons =
                   Some (map (\<lambda>lang. \<lparr>button_id = ascii ''lang_'' @ code lang,
                                       button_title = name lang\<rparr>)
                           (take 3 languages))\<rparr>,
            db)"
proof -
  have "selection_supported db (is_language_selection_response (unicode_lower e) message_text payload)
          = Inr False"
    using assms(1) is_language_supported_total [of db]
    by (auto simp: selection_supported_def split: option.splits) (metis (full_types))
  then show ?thesis
    using assms(2) by (simp add: awaiting_language_def create_language_selection_prompt_def)
qed

lemma process_unset:
  assumes "get_user_language db platform user_id = Inr pref" and "\<not> truthy pref"
  shows "process_message_with_translation e db platform user_id message_text payload =
           (fst (awaiting_language e db platform user_id message_text payload),
            snd (awaiting_language e db platform user_id message_text payload), [])"
  using assms by (simp add: process_message_with_translation_def split: prod.splits)

lemma process_set:
  assumes "get_user_language db platform user_id = Inr (Some lang)" and "lang \<noteq> []"
  shows "process_message_with_translation e db platform user_id message_text payload =
           (fst (active e user_id message_text lang), db,
            snd (active e user_id message_text lang))"
  using assms by (simp add: process_message_with_translation_def or_else_def split: prod.splits)

lemma active_cases:
  "active e user_id message_text lang =
     (case fst (translation_pipeline e user_id message_text lang) of
        Inr result \<Rightarrow> Inr result
      | Inl err \<Rightarrow>
          Inr \<lparr>response = get_default (map_of error_messages) lang error_en,
                quick_replies = None, buttons = None\<rparr>,
      snd (translation_pipeline e user_id message_text lang))"
  by (simp add: active_def split: prod.splits sum.splits)

lemma awaiting_language_total:
  "\<exists>d. fst (awaiting_language e db platform user_id message_text payload) = Inr d"
proof (cases "\<exists>selected. is_language_selection_response (unicode_lower e) message_text payload
                  = Some selected \<and> selected \<noteq> [] \<and> is_language_supported db selected = Inr True")
  case True
  then show ?thesis by (auto simp: awaiting_selected)
next
  case False
  then show ?thesis
    using get_supported_languages_total [of db] awaiting_prompt [OF False] by auto
qed

lemma pipeline_agent_raises:
  assumes "(if lang = ascii ''en'' then Inr message_text
            else translate_text (translate_client e) message_text (ascii ''en'') (Some lang))
           = Inr english"
    and "invoke_bedrock_agent e english user_id (Some user_id) = Inl err"
  shows "fst (translation_pipeline e user_id message_text lang) = Inl err"
  using assms by (auto simp: translation_pipeline_def Let_def split: if_splits)


lemma user_collection_facebook:
  "user_collection (ascii ''facebook'') = ascii ''ss_facebook_user_details''"
  by (simp add: user_collection_def ascii_def)

lemma tamil_store_pref:
  "get_user_language tamil_store (ascii ''facebook'') (ascii ''u1'') = Inr (Some (ascii ''ta''))"
  by (simp add: get_user_language_def tamil_store_def empty_store_def user_collection_facebook)

lemma bare_agent: "invoke_bedrock_agent bare_env m s u = Inl ValueError"
  by (simp add: invoke_bedrock_agent_def bare_env_def get_config_def)





lemma pipeline_other:
  assumes "lang \<noteq> ascii ''en''"
    and "translate_text (translate_client e) message_text (ascii ''en'') (Some lang) = Inr english"
    and "invoke_bedrock_agent e english user_id (Some user_id) = Inr agent_result"
    and "translate_text (translate_client e) (get_default agent_result (ascii ''response'') [])
           lang (Some (ascii ''en'')) = Inr translated"
  shows "translation_pipeline e user_id message_text lang =
           (Inr \<lparr>response = translated, quick_replies = None, buttons = None\<rparr>,
            [TranslateText message_text (ascii ''en'') (Some lang),
             InvokeBedrockAgent english user_id (Some user_id),
             TranslateText (get_default agent_result (ascii ''response'') []) lang
               (Some (ascii ''en''))])"
  using assms by (simp add: translation_pipeline_def Let_def)



lemma english_store_pref:
  "get_user_language english_store (ascii ''facebook'') (ascii ''u1'') = Inr (Some (ascii ''en''))"
  by (simp add: get_user_language_def english_store_def empty_store_def user_collection_facebook)



lemma strip_hi: "strip (ascii ''hi'') = ascii ''hi''" "strip (ascii ''en:hi'') = ascii ''en:hi''"
  by (simp_all add: strip_def ascii_def is_space_def)


lemma translate_text_client_raises:
  assumes "source \<noteq> []" and "client_translate client t target (Some source) = Inl err"
  shows "translate_text (Some client) t target (Some source) = Inr t"
  using assms by (simp add: translate_text_def)

lemma translate_text_no_raise: "translate_text tc t target source \<noteq> Inl err"
  using translate_text_total [of tc t target source] by auto

lemma pipeline_raises_only_agent:
  assumes "fst (translation_pipeline e user_id message_text lang) = Inl err"
  shows "\<exists>english.
           (if lang = ascii ''en'' then Inr message_text
            else translate_text (translate_client e) message_text (ascii ''en'') (Some lang))
             = Inr english
           \<and> invoke_bedrock_agent e english user_id (Some user_id) = Inl err"
proof -
  obtain english where english:
    "translate_text (translate_client e) message_text (ascii ''en'') (Some lang) = Inr english"
    using translate_text_total by blast
  show ?thesis
  proof (cases "lang = ascii ''en''")
    case True
    then show ?thesis
      using assms by (auto simp: translation_pipeline_def Let_def split: sum.splits)
  next
    case False
    then show ?thesis
      using assms english
      by (auto simp: translation_pipeline_def Let_def translate_text_no_raise split: sum.splits)
  qed
qed

lemma broken_echo_agent:
  "invoke_bedrock_agent broken_echo_env m s u =
     Inr [ascii ''response'' \<mapsto> strip m, ascii ''session_id'' \<mapsto> s]"
  by (simp add: invoke_bedrock_agent_def broken_echo_env_def echo_env_def get_config_def
      get_bedrock_client_def or_else_def ascii_def Let_def)

lemma broken_echo_translate:
  "source \<noteq> [] \<Longrightarrow>
   translate_text (translate_client broken_echo_env) t target (Some source) = Inr t"
  by (simp add: translate_text_def broken_echo_env_def broken_client_def)

lemma broken_echo_run:
  "fst (process_message_with_translation broken_echo_env tamil_store (ascii ''facebook'')
          (ascii ''u1'') (ascii ''hi'') None) =
     Inr \<lparr>response = ascii ''hi'', quick_replies = None, buttons = None\<rparr>"
proof -
  have ne: "ascii ''ta'' \<noteq> []" "ascii ''ta'' \<noteq> ascii ''en''" "ascii ''en'' \<noteq> []"
    by (simp_all add: ascii_def)
  have reply: "get_default [ascii ''response'' \<mapsto> strip (ascii ''hi''),
                            ascii ''session_id'' \<mapsto> ascii ''u1''] (ascii ''response'') []
                 = ascii ''hi''"
    by (simp add: get_default_def strip_hi) (simp add: ascii_def)
  show ?thesis
    using pipeline_other [OF ne(2), where e = broken_echo_env and message_text = "ascii ''hi''"
        and english = "ascii ''hi''" and user_id = "ascii ''u1''"
        and agent_result = "[ascii ''response'' \<mapsto> strip (ascii ''hi''),
                             ascii ''session_id'' \<mapsto> ascii ''u1'']"
        and translated = "ascii ''hi''"]
      ne tamil_store_pref
    by (simp add: process_set active_cases broken_echo_translate broken_echo_agent reply)
qed

text \<open>
  Claim C1 as stated does not hold for a failure of the translation step: for a user with
  preference \<open>ta\<close> whose translation client raises on both calls while the agent works,
  the descriptor carries the agent's reply to the untranslated text, not the Tamil error
  string.
\<close>

theorem translation_failure_counterexample:
  "get_user_language tamil_store (ascii ''facebook'') (ascii ''u1'') = Inr (Some (ascii ''ta''))
   \<and> translate_client broken_echo_env = Some broken_client
   \<and> client_translate broken_client (ascii ''hi'') (ascii ''en'') (Some (ascii ''ta''))
       = Inl ApiError
   \<and> client_translate broken_client (ascii ''hi'') (ascii ''ta'') (Some (ascii ''en''))
       = Inl ApiError
   \<and> fst (process_message_with_translation broken_echo_env tamil_store (ascii ''facebook'')
            (ascii ''u1'') (ascii ''hi'') None) =
       Inr \<lparr>response = ascii ''hi'', quick_replies = None, buttons = None\<rparr>
   \<and> ascii ''hi'' \<noteq> error_ta"
  using tamil_store_pref broken_echo_run
  by (simp add: broken_echo_env_def broken_client_def) (simp add: ascii_def error_ta_def)

text \<open>
  Claim C1, amended. No exception leaves \<open>process_message_with_translation\<close>. For a user
  with a stored preference, when the agent invocation raises, the exception is caught and
  the descriptor carries the fixed error string of the preference (Tamil for \<open>ta\<close>,
  Malayalam for \<open>ml\<close>, English for \<open>en\<close> and for every other code); in particular for
  preference \<open>ta\<close> the text is the Tamil error string. The agent invocation is the only
  step of the pipeline that can raise. A failure of the translation step is not an
  exception: when the translation client raises on both calls and the agent returns, the
  descriptor carries the agent's reply as it is.
\<close>

theorem handle_message_never_raises:
  "(\<exists>d. fst (process_message_with_translation e db platform user_id message_text payload) = Inr d)
   \<and> (\<forall>lang english err.
         get_user_language db platform user_id = Inr (Some lang) \<and> lang \<noteq> []
         \<and> (if lang = ascii ''en'' then Inr message_text
             else translate_text (translate_client e) message_text (ascii ''en'') (Some lang))
            = Inr english
         \<and> invoke_bedrock_agent e english user_id (Some user_id) = Inl err
        \<longrightarrow> fst (process_message_with_translation e db platform user_id message_text payload) =
              Inr \<lparr>response = (if lang = ascii ''ta'' then error_ta
                                else if lang = ascii ''ml'' then error_ml else error_en),
                    quick_replies = None, buttons = None\<rparr>)
   \<and> (\<forall>english err. get_user_language db platform user_id = Inr (Some (ascii ''ta''))
          \<and> translate_text (translate_client e) message_text (ascii ''en'') (Some (ascii ''ta''))
              = Inr english
          \<and> invoke_bedrock_agent e english user_id (Some user_id) = Inl err
        \<longrightarrow> fst (process_message_with_translation e db platform user_id message_text payload) =
              Inr \<lparr>response = error_ta, quick_replies = None, buttons = None\<rparr>)
   \<and> (\<forall>lang err. get_user_language db platform user_id = Inr (Some lang) \<and> lang \<noteq> []
          \<and> fst (translation_pipeline e user_id message_text lang) = Inl err
        \<longrightarrow> (\<exists>english.
               (if lang = ascii ''en'' then Inr message_text
                else translate_text (translate_client e) message_text (ascii ''en'') (Some lang))
                 = Inr english
               \<and> invoke_bedrock_agent e english user_id (Some user_id) = Inl err))
   \<and> (\<forall>lang client err1 err2 agent_result reply.
         get_user_language db platform user_id = Inr (Some lang) \<and> lang \<noteq> []
         \<and> lang \<noteq> ascii ''en'' \<and> translate_client e = Some client
         \<and> client_translate client message_text (ascii ''en'') (Some lang) = Inl err1
         \<and> invoke_bedrock_agent e message_text user_id (Some user_id) = Inr agent_result
         \<and> agent_result (ascii ''response'') = Some reply
         \<and> client_translate client reply lang (Some (ascii ''en'')) = Inl err2
        \<longrightarrow> fst (process_message_with_translation e db platform user_id message_text payload) =
              Inr \<lparr>response = reply, quick_replies = None, buttons = None\<rparr>)"
proof (intro conjI allI impI)
  obtain pref where pref: "get_user_language db platform user_id = Inr pref"
    using get_user_language_total by blast
  show "\<exists>d. fst (process_message_with_translation e db platform user_id message_text payload) = Inr d"
  proof (cases "truthy pref")
    case False
    then show ?thesis
      using process_unset [OF pref False] awaiting_language_total by simp
  next
    case True
    then obtain lang where "pref = Some lang" "lang \<noteq> []" by (cases pref) auto
    then show ?thesis
      using process_set [of db platform user_id lang] pref
      by (simp add: active_cases split: sum.splits)
  qed
next
  fix lang english err
  assume a: "get_user_language db platform user_id = Inr (Some lang) \<and> lang \<noteq> []
         \<and> (if lang = ascii ''en'' then Inr message_text
             else translate_text (translate_client e) message_text (ascii ''en'') (Some lang))
            = Inr english
         \<and> invoke_bedrock_agent e english user_id (Some user_id) = Inl err"
  then have "fst (translation_pipeline e user_id message_text lang) = Inl err"
    by (intro pipeline_agent_raises [where english = english]) simp_all
  then show "fst (process_message_with_translation e db platform user_id message_text payload) =
              Inr \<lparr>response = (if lang = ascii ''ta'' then error_ta
                                else if lang = ascii ''ml'' then error_ml else error_en),
                    quick_replies = None, buttons = None\<rparr>"
    using a by (simp add: process_set active_cases error_lookup)
next
  fix english err
  assume a: "get_user_language db platform user_id = Inr (Some (ascii ''ta''))
          \<and> translate_text (translate_client e) message_text (ascii ''en'') (Some (ascii ''ta''))
              = Inr english
          \<and> invoke_bedrock_agent e english user_id (Some user_id) = Inl err"
  have ne: "ascii ''ta'' \<noteq> []" "ascii ''ta'' \<noteq> ascii ''en''" by (simp_all add: ascii_def)
  have "fst (translation_pipeline e user_id message_text (ascii ''ta'')) = Inl err"
    using a ne by (intro pipeline_agent_raises [where english = english]) simp_all
  then show "fst (process_message_with_translation e db platform user_id message_text payload) =
              Inr \<lparr>response = error_ta, quick_replies = None, buttons = None\<rparr>"
    using a ne by (simp add: process_set active_cases error_lookup)
next
  fix lang err
  assume "get_user_language db platform user_id = Inr (Some lang) \<and> lang \<noteq> []
          \<and> fst (translation_pipeline e user_id message_text lang) = Inl err"
  then show "\<exists>english.
               (if lang = ascii ''en'' then Inr message_text
                else translate_text (translate_client e) message_text (ascii ''en'') (Some lang))
                 = Inr english
               \<and> invoke_bedrock_agent e english user_id (Some user_id) = Inl err"
    using pipeline_raises_only_agent by blast
next
  fix lang client err1 err2 agent_result reply
  assume a: "get_user_language db platform user_id = Inr (Some lang) \<and> lang \<noteq> []
         \<and> lang \<noteq> ascii ''en'' \<and> translate_client e = Some client
         \<and> client_translate client message_text (ascii ''en'') (Some lang) = Inl err1
         \<and> invoke_bedrock_agent e message_text user_id (Some user_id) = Inr agent_result
         \<and> agent_result (ascii ''response'') = Some reply
         \<and> client_translate client reply lang (Some (ascii ''en'')) = Inl err2"
  have en: "ascii ''en'' \<noteq> []" by (simp add: ascii_def)
  have first: "translate_text (translate_client e) message_text (ascii ''en'') (Some lang)
                 = Inr message_text"
    using a translate_text_client_raises [of lang client message_text "ascii ''en''" err1] by simp
  have second: "translate_text (translate_client e)
                  (get_default agent_result (ascii ''response'') []) lang (Some (ascii ''en''))
                  = Inr reply"
    using a en translate_text_client_raises [of "ascii ''en''" client reply lang err2]
    by (simp add: get_default_def)
  have "translation_pipeline e user_id message_text lang =
          (Inr \<lparr>response = reply, quick_replies = None, buttons = None\<rparr>,
           [TranslateText message_text (ascii ''en'') (Some lang),
            InvokeBedrockAgent message_text user_id (Some user_id),
            TranslateText (get_default agent_result (ascii ''response'') []) lang
              (Some (ascii ''en''))])"
    using a by (intro pipeline_other first second) simp_all
  then show "fst (process_message_with_translation e db platform user_id message_text payload) =
              Inr \<lparr>response = reply, quick_replies = None, buttons = None\<rparr>"
    using a by (simp add: process_set active_cases)
qed

theorem handle_message_never_raises_witness:
  "get_user_language tamil_store (ascii ''facebook'') (ascii ''u1'') = Inr (Some (ascii ''ta''))
   \<and> translate_text (translate_client bare_env) (ascii ''hi'') (ascii ''en'') (Some (ascii ''ta''))
       = Inr (ascii ''hi'')
   \<and> invoke_bedrock_agent bare_env (ascii ''hi'') (ascii ''u1'') (Some (ascii ''u1'')) = Inl ValueError
   \<and> fst (process_message_with_translation bare_env tamil_store (ascii ''facebook'') (ascii ''u1'')
            (ascii ''hi'') None)
       = Inr \<lparr>response = error_ta, quick_replies = None, buttons = None\<rparr>
   \<and> get_user_language english_store (ascii ''facebook'') (ascii ''u1'') = Inr (Some (ascii ''en''))
   \<and> fst (process_message_with_translation bare_env english_store (ascii ''facebook'')
            (ascii ''u1'') (ascii ''hi'') None)
       = Inr \<lparr>response = error_en, quick_replies = None, buttons = None\<rparr>
   \<and> translate_client broken_echo_env = Some broken_client
   \<and> client_translate broken_client (ascii ''hi'') (ascii ''en'') (Some (ascii ''ta''))
       = Inl ApiError
   \<and> client_translate broken_client (ascii ''hi'') (ascii ''ta'') (Some (ascii ''en''))
       = Inl ApiError
   \<and> invoke_bedrock_agent broken_echo_env (ascii ''hi'') (ascii ''u1'') (Some (ascii ''u1''))
       = Inr [ascii ''response'' \<mapsto> ascii ''hi'', ascii ''session_id'' \<mapsto> ascii ''u1'']
   \<and> fst (process_message_with_translation broken_echo_env tamil_store (ascii ''facebook'')
            (ascii ''u1'') (ascii ''hi'') None)
       = Inr \<lparr>response = ascii ''hi'', quick_replies = None, buttons = None\<rparr>"
proof -
  have ne: "ascii ''ta'' \<noteq> []" "ascii ''ta'' \<noteq> ascii ''en''" "ascii ''en'' \<noteq> []"
    "ascii ''en'' \<noteq> ascii ''ta''" "ascii ''en'' \<noteq> ascii ''ml''"
    "ascii ''response'' \<noteq> ascii ''session_id''"
    by (simp_all add: ascii_def)
  have t: "translate_text (translate_client bare_env) (ascii ''hi'') (ascii ''en'') (Some (ascii ''ta''))
       = Inr (ascii ''hi'')"
    by (simp add: translate_text_def bare_env_def)
  have tamil: "fst (process_message_with_translation bare_env tamil_store (ascii ''facebook'')
            (ascii ''u1'') (ascii ''hi'') None)
       = Inr \<lparr>response = error_ta, quick_replies = None, buttons = None\<rparr>"
    using handle_message_never_raises [of bare_env tamil_store "ascii ''facebook''" "ascii ''u1''"
        "ascii ''hi''" None] tamil_store_pref t bare_agent
    by blast
  have "fst (process_message_with_translation bare_env english_store (ascii ''facebook'')
            (ascii ''u1'') (ascii ''hi'') None)
       = Inr \<lparr>response = (if ascii ''en'' = ascii ''ta'' then error_ta
                           else if ascii ''en'' = ascii ''ml'' then error_ml else error_en),
               quick_replies = None, buttons = None\<rparr>"
    using handle_message_never_raises [of bare_env english_store "ascii ''facebook''" "ascii ''u1''"
        "ascii ''hi''" None, THEN conjunct2, THEN conjunct1, rule_format,
        of "ascii ''en''" "ascii ''hi''" ValueError]
      english_store_pref ne(3) bare_agent
    by simp
  then have english: "fst (process_message_with_translation bare_env english_store
            (ascii ''facebook'') (ascii ''u1'') (ascii ''hi'') None)
       = Inr \<lparr>response = error_en, quick_replies = None, buttons = None\<rparr>"
    using ne by simp
  have client: "translate_client broken_echo_env = Some broken_client"
    "client_translate broken_client (ascii ''hi'') (ascii ''en'') (Some (ascii ''ta'')) = Inl ApiError"
    "client_translate broken_client (ascii ''hi'') (ascii ''ta'') (Some (ascii ''en'')) = Inl ApiError"
    by (simp_all add: broken_echo_env_def broken_client_def)
  have agent: "invoke_bedrock_agent broken_echo_env (ascii ''hi'') (ascii ''u1'') (Some (ascii ''u1''))
       = Inr [ascii ''response'' \<mapsto> ascii ''hi'', ascii ''session_id'' \<mapsto> ascii ''u1'']"
    by (simp add: broken_echo_agent strip_hi)
  have reply: "[ascii ''response'' \<mapsto> ascii ''hi'', ascii ''session_id'' \<mapsto> ascii ''u1'']
                 (ascii ''response'') = Some (ascii ''hi'')"
    using ne(6) by simp
  have passed: "fst (process_message_with_translation broken_echo_env tamil_store
            (ascii ''facebook'') (ascii ''u1'') (ascii ''hi'') None)
       = Inr \<lparr>response = ascii ''hi'', quick_replies = None, buttons = None\<rparr>"
    using handle_message_never_raises [of broken_echo_env tamil_store "ascii ''facebook''"
        "ascii ''u1''" "ascii ''hi''" None, THEN conjunct2, THEN conjunct2, THEN conjunct2,
        THEN conjunct2, rule_format,
        of "ascii ''ta''" broken_client ApiError
          "[ascii ''response'' \<mapsto> ascii ''hi'', ascii ''session_id'' \<mapsto> ascii ''u1'']"
          "ascii ''hi''" ApiError]
      tamil_store_pref ne(1,2) client agent reply
    by blast
  show ?thesis
    using tamil_store_pref t bare_agent tamil english_store_pref english client agent passed
    by simp
qed




lemma get_user_language_stored:
  "get_user_language db platform user_id =
     Inr (if get_raises db then None else stored_preference db (user_collection platform, user_id))"
  by (simp add: get_user_language_def stored_preference_def split: option.splits)

lemma set_user_language_stored:
  "\<not> set_raises db \<Longrightarrow>
   stored_preference (snd (set_user_language db platform user_id lang)) ref =
     (if ref = (user_collection platform, user_id) then Some lang else stored_preference db ref)"
  by (auto simp: set_user_language_cases stored_preference_def split: option.splits)

lemma set_user_language_flags:
  "get_raises (snd (set_user_language db platform user_id lang)) = get_raises db"
  "set_raises (snd (set_user_language db platform user_id lang)) = set_raises db"
  "stream_raises (snd (set_user_language db platform user_id lang)) = stream_raises db"
  "language_support (snd (set_user_language db platform user_id lang)) = language_support db"
  by (simp_all add: set_user_language_cases)

lemma set_user_language_failed:
  "set_raises db \<Longrightarrow> set_user_language db platform user_id lang = (Inr False, db)"
  by (simp add: set_user_language_cases)

lemma parse_LANG_ta:
  "is_language_selection_response ucd message_text (Some (ascii ''LANG_ta'')) = Some (ascii ''ta'')"
  by (simp add: is_language_selection_response_def payload_selection_def replace_def
      startswith_def ascii_def)

lemma awaiting_store:
  "snd (awaiting_language e db platform user_id message_text payload) = db
   \<or> (\<exists>selected.
         is_language_selection_response (unicode_lower e) message_text payload = Some selected
         \<and> selected \<noteq> [] \<and> is_language_supported db selected = Inr True
         \<and> snd (awaiting_language e db platform user_id message_text payload) =
             snd (set_user_language db platform user_id selected))"
proof (cases "\<exists>selected. is_language_selection_response (unicode_lower e) message_text payload
                  = Some selected \<and> selected \<noteq> [] \<and> is_language_supported db selected = Inr True")
  case True
  then obtain selected where s:
    "is_language_selection_response (unicode_lower e) message_text payload = Some selected"
    "selected \<noteq> []" "is_language_supported db selected = Inr True" by blast
  show ?thesis
    using s awaiting_selected [OF s] by simp
next
  case False
  obtain languages where "get_supported_languages db = Inr languages"
    using get_supported_languages_total by blast
  then show ?thesis
    using awaiting_prompt [OF False] by simp
qed

lemma process_store:
  "fst (snd (process_message_with_translation e db platform user_id message_text payload)) = db
   \<or> (\<exists>pref selected.
         get_user_language db platform user_id = Inr pref \<and> \<not> truthy pref
         \<and> is_language_selection_response (unicode_lower e) message_text payload = Some selected
         \<and> selected \<noteq> [] \<and> is_language_supported db selected = Inr True \<and> \<not> set_raises db
         \<and> fst (snd (process_message_with_translation e db platform user_id message_text payload)) =
             snd (set_user_language db platform user_id selected))"
proof -
  obtain pref where pref: "get_user_language db platform user_id = Inr pref"
    using get_user_language_total by blast
  show ?thesis
  proof (cases "truthy pref")
    case True
    then obtain lang where "pref = Some lang" "lang \<noteq> []" by (cases pref) auto
    then show ?thesis
      using pref by (simp add: process_set)
  next
    case False
    have run: "fst (snd (process_message_with_translation e db platform user_id message_text payload))
                 = snd (awaiting_language e db platform user_id message_text payload)"
      using process_unset [OF pref False] by simp
    show ?thesis
    proof (cases "set_raises db")
      case True
      then show ?thesis
        using run awaiting_store [of e db platform user_id message_text payload]
        by (auto simp: set_user_language_failed)
    next
      case no: False
      then show ?thesis
        using run pref False awaiting_store [of e db platform user_id message_text payload]
        by auto
    qed
  qed
qed

lemma empty_store_pref: "get_user_language empty_store platform user_id = Inr None"
  by (simp add: get_user_language_def empty_store_def)

lemma empty_store_languages:
  "get_supported_languages empty_store = Inr default_languages"
  by (simp add: get_supported_languages_def read_languages_def empty_store_def)

lemma empty_store_supported: "is_language_supported empty_store (ascii ''ta'') = Inr True"
  by (simp add: is_language_supported_def get_supported_languages_def read_languages_def
      empty_store_def default_languages_def ascii_def)

lemma bare_hello:
  "is_language_selection_response (unicode_lower bare_env) (ascii ''hello'') None = None"
  by (simp add: is_language_selection_response_def payload_selection_def strip_def lower_def
      lower_ucs4_def ascii_lower_def is_space_def language_map_def ascii_def)

lemma bare_english:
  "is_language_selection_response (unicode_lower bare_env) (ascii ''english'') None
     = Some (ascii ''en'')"
  by (simp add: is_language_selection_response_def payload_selection_def strip_def lower_def
      lower_ucs4_def ascii_lower_def is_space_def language_map_def ascii_def)

lemma readonly_store_pref: "get_user_language readonly_store platform user_id = Inr None"
  by (simp add: get_user_language_def readonly_store_def empty_store_def)

lemma readonly_store_supported: "is_language_supported readonly_store (ascii ''ta'') = Inr True"
  by (simp add: is_language_supported_def get_supported_languages_def read_languages_def
      readonly_store_def empty_store_def default_languages_def ascii_def)

lemma unreadable_store_pref:
  "get_user_language unreadable_store platform user_id = Inr None"
  by (simp add: get_user_language_def unreadable_store_def)

lemma unreadable_store_stored:
  "stored_preference unreadable_store (ascii ''ss_facebook_user_details'', ascii ''u1'')
     = Some (ascii ''ta'')"
  by (simp add: stored_preference_def unreadable_store_def tamil_store_def empty_store_def)

lemma unreadable_store_supported:
  "is_language_supported unreadable_store (ascii ''en'') = Inr True"
  by (simp add: is_language_supported_def get_supported_languages_def read_languages_def
      unreadable_store_def tamil_store_def empty_store_def default_languages_def ascii_def)

lemma unreadable_store_run:
  "fst (snd (process_message_with_translation bare_env unreadable_store (ascii ''facebook'')
               (ascii ''u1'') (ascii ''english'') None)) =
     snd (set_user_language unreadable_store (ascii ''facebook'') (ascii ''u1'') (ascii ''en''))"
proof -
  have unset: "\<not> truthy None" by simp
  have ne: "ascii ''en'' \<noteq> []" by (simp add: ascii_def)
  show ?thesis
    using process_unset [OF unreadable_store_pref unset]
      awaiting_selected [OF bare_english ne unreadable_store_supported]
    by simp
qed

lemma unreadable_store_after:
  "stored_preference
     (fst (snd (process_message_with_translation bare_env unreadable_store (ascii ''facebook'')
                  (ascii ''u1'') (ascii ''english'') None)))
     (ascii ''ss_facebook_user_details'', ascii ''u1'') = Some (ascii ''en'')"
proof -
  have writes: "\<not> set_raises unreadable_store"
    by (simp add: unreadable_store_def tamil_store_def empty_store_def)
  have "stored_preference
          (snd (set_user_language unreadable_store (ascii ''facebook'') (ascii ''u1'') (ascii ''en'')))
          (ascii ''ss_facebook_user_details'', ascii ''u1'') = Some (ascii ''en'')"
    using writes by (simp add: set_user_language_stored user_collection_facebook)
  then show ?thesis
    by (simp add: unreadable_store_run)
qed

text \<open>
  Claim C3 as stated does not hold when the write to the store fails: the user has no
  stored preference, the payload \<open>LANG_ta\<close> gives the supported code \<open>ta\<close>, and after
  the call the preference is still unset.
\<close>

theorem selection_not_persisted_counterexample:
  "get_user_language readonly_store (ascii ''facebook'') (ascii ''u1'') = Inr None
   \<and> is_language_selection_response (unicode_lower bare_env) (ascii ''ok'')
         (Some (ascii ''LANG_ta'')) = Some (ascii ''ta'')
   \<and> is_language_supported readonly_store (ascii ''ta'') = Inr True
   \<and> get_user_language
         (fst (snd (process_message_with_translation bare_env readonly_store (ascii ''facebook'')
                      (ascii ''u1'') (ascii ''ok'') (Some (ascii ''LANG_ta'')))))
         (ascii ''facebook'') (ascii ''u1'') = Inr None"
proof -
  have unset: "\<not> truthy None" by simp
  have ne: "ascii ''ta'' \<noteq> []" by (simp add: ascii_def)
  have fails: "set_raises readonly_store"
    by (simp add: readonly_store_def empty_store_def)
  have "fst (snd (process_message_with_translation bare_env readonly_store (ascii ''facebook'')
                      (ascii ''u1'') (ascii ''ok'') (Some (ascii ''LANG_ta'')))) = readonly_store"
    using process_unset [OF readonly_store_pref unset]
      awaiting_selected [OF parse_LANG_ta ne readonly_store_supported]
      set_user_language_failed [OF fails]
    by simp
  then show ?thesis
    using readonly_store_pref parse_LANG_ta readonly_store_supported by simp
qed

text \<open>
  Claim C3, amended. For a user with no preference reported, when the parser gives a
  non-empty code and the directory supports it, the descriptor carries the confirmation
  string of the code (Tamil for \<open>ta\<close>, Malayalam for \<open>ml\<close>, English for \<open>en\<close> and for any
  other code); with the payload \<open>LANG_ta\<close> it is the Tamil confirmation. When the write to
  the store does not fail, the code is stored as the user's preference, and a later call
  on a store with these documents whose read succeeds finds the preference and takes the
  translation path.
\<close>

theorem selection_confirmed:
  assumes "get_user_language db platform user_id = Inr pref" and "\<not> truthy pref"
    and "is_language_selection_response (unicode_lower e) message_text payload = Some selected"
    and "selected \<noteq> []" and "is_language_supported db selected = Inr True"
  shows "fst (process_message_with_translation e db platform user_id message_text payload) =
           Inr \<lparr>response = (if selected = ascii ''ta'' then confirmation_ta
                             else if selected = ascii ''ml'' then confirmation_ml
                             else confirmation_en),
                 quick_replies = None, buttons = None\<rparr>
    \<and> (payload = Some (ascii ''LANG_ta'') \<longrightarrow>
         fst (process_message_with_translation e db platform user_id message_text payload) =
           Inr \<lparr>response = confirmation_ta, quick_replies = None, buttons = None\<rparr>)
    \<and> (\<not> set_raises db \<longrightarrow>
         stored_preference
           (fst (snd (process_message_with_translation e db platform user_id message_text payload)))
           (user_collection platform, user_id) = Some selected
         \<and> (\<forall>db2 e2 text2 payload2.
               documents db2 =
                 documents (fst (snd (process_message_with_translation e db platform user_id
                                        message_text payload)))
               \<and> \<not> get_raises db2 \<longrightarrow>
               get_user_language db2 platform user_id = Inr (Some selected)
               \<and> process_message_with_translation e2 db2 platform user_id text2 payload2 =
                   (fst (active e2 user_id text2 selected), db2,
                    snd (active e2 user_id text2 selected))))"
proof -
  let ?db' = "fst (snd (process_message_with_translation e db platform user_id message_text payload))"
  have run: "process_message_with_translation e db platform user_id message_text payload =
      (Inr \<lparr>response = get_default (map_of confirmations) selected confirmation_en,
            quick_replies = None, buttons = None\<rparr>,
       snd (set_user_language db platform user_id selected), [])"
    using process_unset [OF assms(1,2)] awaiting_selected [OF assms(3,4,5)] by simp
  have msg: "fst (process_message_with_translation e db platform user_id message_text payload) =
           Inr \<lparr>response = (if selected = ascii ''ta'' then confirmation_ta
                             else if selected = ascii ''ml'' then confirmation_ml
                             else confirmation_en),
                 quick_replies = None, buttons = None\<rparr>"
    using run by (simp add: confirmation_lookup)
  have tamil: "fst (process_message_with_translation e db platform user_id message_text payload) =
           Inr \<lparr>response = confirmation_ta, quick_replies = None, buttons = None\<rparr>"
    if "payload = Some (ascii ''LANG_ta'')"
  proof -
    have "selected = ascii ''ta''"
      using assms(3) that parse_LANG_ta by simp
    then show ?thesis using msg by simp
  qed
  have saved: "stored_preference ?db' (user_collection platform, user_id) = Some selected"
    if "\<not> set_raises db"
    using run that by (simp add: set_user_language_stored)
  have later: "get_user_language db2 platform user_id = Inr (Some selected)
               \<and> process_message_with_translation e2 db2 platform user_id text2 payload2 =
                   (fst (active e2 user_id text2 selected), db2,
                    snd (active e2 user_id text2 selected))"
    if ok: "\<not> set_raises db" and same: "documents db2 = documents ?db'" and reads: "\<not> get_raises db2"
    for db2 e2 text2 payload2
  proof -
    have "stored_preference db2 (user_collection platform, user_id) = Some selected"
      using saved [OF ok] same by (simp add: stored_preference_def)
    then have "get_user_language db2 platform user_id = Inr (Some selected)"
      using reads by (simp add: get_user_language_stored)
    then show ?thesis
      using process_set [OF _ assms(4)] by simp
  qed
  show ?thesis
    using msg tamil saved later by blast
qed

theorem selection_confirmed_witness:
  "get_user_language empty_store (ascii ''facebook'') (ascii ''u1'') = Inr None
   \<and> is_language_selection_response (unicode_lower bare_env) (ascii ''ok'')
         (Some (ascii ''LANG_ta'')) = Some (ascii ''ta'')
   \<and> is_language_supported empty_store (ascii ''ta'') = Inr True
   \<and> \<not> set_raises empty_store
   \<and> fst (process_message_with_translation bare_env empty_store (ascii ''facebook'') (ascii ''u1'')
            (ascii ''ok'') (Some (ascii ''LANG_ta''))) =
       Inr \<lparr>response = confirmation_ta, quick_replies = None, buttons = None\<rparr>
   \<and> get_user_language
         (fst (snd (process_message_with_translation bare_env empty_store (ascii ''facebook'')
                      (ascii ''u1'') (ascii ''ok'') (Some (ascii ''LANG_ta'')))))
         (ascii ''facebook'') (ascii ''u1'') = Inr (Some (ascii ''ta''))"
proof -
  let ?db' = "fst (snd (process_message_with_translation bare_env empty_store (ascii ''facebook'')
                      (ascii ''u1'') (ascii ''ok'') (Some (ascii ''LANG_ta''))))"
  have unset: "\<not> truthy None" by simp
  have ne: "ascii ''ta'' \<noteq> []" by (simp add: ascii_def)
  have writes: "\<not> set_raises empty_store" by (simp add: empty_store_def)
  note inst = selection_confirmed [where e = bare_env and message_text = "ascii ''ok''",
      OF empty_store_pref unset parse_LANG_ta ne empty_store_supported,
      where platform = "ascii ''facebook''" and user_id = "ascii ''u1''"]
  have reads: "\<not> get_raises ?db'"
    using process_unset [OF empty_store_pref unset, where e = bare_env
        and platform = "ascii ''facebook''" and user_id = "ascii ''u1''"
        and message_text = "ascii ''ok''" and payload = "Some (ascii ''LANG_ta'')"]
      awaiting_selected [OF parse_LANG_ta ne empty_store_supported,
        where platform = "ascii ''facebook''" and user_id = "ascii ''u1''"]
    by (simp add: set_user_language_flags empty_store_def)
  have "get_user_language ?db' (ascii ''facebook'') (ascii ''u1'') = Inr (Some (ascii ''ta''))"
    using inst writes reads by blast
  moreover have "fst (process_message_with_translation bare_env empty_store (ascii ''facebook'')
            (ascii ''u1'') (ascii ''ok'') (Some (ascii ''LANG_ta''))) =
       Inr \<lparr>response = confirmation_ta, quick_replies = None, buttons = None\<rparr>"
    using inst by blast
  ultimately show ?thesis
    using empty_store_pref parse_LANG_ta empty_store_supported writes by simp
qed

text \<open>
  Claim C5. For a user with no preference reported whose message gives no supported
  selection, the descriptor is the prompt: the fixed greeting, one quick reply per entry
  of the language directory, in its order, with the entry's name as title and \<open>LANG_\<close>
  followed by its code as payload, and one button per entry of the first three, with
  \<open>lang_\<close> followed by the code as id; the store is left as it was.
\<close>

theorem prompt_when_no_selection:
  assumes "get_user_language db platform user_id = Inr pref" and "\<not> truthy pref"
    and "\<not> (\<exists>selected.
              is_language_selection_response (unicode_lower e) message_text payload = Some selected
              \<and> selected \<noteq> [] \<and> is_language_supported db selected = Inr True)"
  shows "\<exists>languages.
           get_supported_languages db = Inr languages \<and> languages \<noteq> []
           \<and> process_message_with_translation e db platform user_id message_text payload =
               (Inr \<lparr>response = prompt_text,
                     quick_replies =
                       Some (map (\<lambda>lang. \<lparr>qr_title = name lang,
                                           qr_payload = ascii ''LANG_'' @ code lang\<rparr>)
                               languages),
                     buttons =
                       Some (map (\<lambda>lang. \<lparr>button_id = ascii ''lang_'' @ code lang,
                                           button_title = name lang\<rparr>)
                               (take 3 languages))\<rparr>,
                db, [])"
proof -
  obtain languages where languages:
    "get_supported_languages db = Inr languages" "languages \<noteq> []"
    using get_supported_languages_total by blast
  show ?thesis
    using languages process_unset [OF assms(1,2)] awaiting_prompt [OF assms(3) languages(1)]
    by simp
qed

theorem prompt_when_no_selection_witness:
  "get_user_language empty_store (ascii ''facebook'') (ascii ''u1'') = Inr None
   \<and> is_language_selection_response (unicode_lower bare_env) (ascii ''hello'') None = None
   \<and> process_message_with_translation bare_env empty_store (ascii ''facebook'') (ascii ''u1'')
        (ascii ''hello'') None =
       (Inr \<lparr>response = prompt_text,
             quick_replies =
               Some [\<lparr>qr_title = ascii ''English'', qr_payload = ascii ''LANG_en''\<rparr>,
                     \<lparr>qr_title = ascii ''Tamil'', qr_payload = ascii ''LANG_ta''\<rparr>,
                     \<lparr>qr_title = ascii ''Malayalam'', qr_payload = ascii ''LANG_ml''\<rparr>],
             buttons =
               Some [\<lparr>button_id = ascii ''lang_en'', button_title = ascii ''English''\<rparr>,
                     \<lparr>button_id = ascii ''lang_ta'', button_title = ascii ''Tamil''\<rparr>,
                     \<lparr>button_id = ascii ''lang_ml'', button_title = ascii ''Malayalam''\<rparr>]\<rparr>,
        empty_store, [])"
proof -
  have unset: "\<not> truthy None" by simp
  have none: "\<not> (\<exists>selected.
              is_language_selection_response (unicode_lower bare_env) (ascii ''hello'') None
                = Some selected
              \<and> selected \<noteq> [] \<and> is_language_supported empty_store selected = Inr True)"
    by (simp add: bare_hello)
  show ?thesis
    using prompt_when_no_selection [OF empty_store_pref unset none, of "ascii ''facebook''" "ascii ''u1''"]
      empty_store_pref [of "ascii ''facebook''" "ascii ''u1''"] bare_hello
    by (auto simp: empty_store_languages default_languages_def ascii_def)
qed

text \<open>
  Claim C9 as stated does not hold when the read of the preference fails: the store holds
  \<open>ta\<close> for the user, the read raises and is taken as unset, the text \<open>english\<close> is a
  supported selection, and the call overwrites the preference with \<open>en\<close>.
\<close>

theorem preference_overwritten_counterexample:
  "stored_preference unreadable_store (ascii ''ss_facebook_user_details'', ascii ''u1'')
     = Some (ascii ''ta'')
   \<and> stored_preference
        (fst (snd (process_message_with_translation bare_env unreadable_store (ascii ''facebook'')
                     (ascii ''u1'') (ascii ''english'') None)))
        (ascii ''ss_facebook_user_details'', ascii ''u1'') = Some (ascii ''en'')
   \<and> ascii ''en'' \<noteq> ascii ''ta''"
  using unreadable_store_stored unreadable_store_after by (simp add: ascii_def)

text \<open>
  Claim C9, amended. When \<open>get_user_language\<close> reports a preference, the call leaves the
  store as it was. The store changes only on the branch of a supported selection, which
  is taken only when no preference was reported (absent, empty, or a failed read), and
  then the selected, non-empty code is stored for this user. So a document that held a
  non-empty preference before the call holds one after it, and the documents of other
  users are untouched.
\<close>

theorem preference_never_unset:
  "(\<forall>lang. get_user_language db platform user_id = Inr (Some lang) \<and> lang \<noteq> [] \<longrightarrow>
       fst (snd (process_message_with_translation e db platform user_id message_text payload)) = db)
   \<and> (fst (snd (process_message_with_translation e db platform user_id message_text payload)) \<noteq> db
        \<longrightarrow> (\<exists>pref selected.
               get_user_language db platform user_id = Inr pref \<and> \<not> truthy pref
               \<and> is_language_selection_response (unicode_lower e) message_text payload
                   = Some selected
               \<and> selected \<noteq> [] \<and> is_language_supported db selected = Inr True
               \<and> stored_preference
                     (fst (snd (process_message_with_translation e db platform user_id
                                  message_text payload)))
                     (user_collection platform, user_id) = Some selected))
   \<and> (\<forall>ref c. stored_preference db ref = Some c \<and> c \<noteq> [] \<longrightarrow>
         (\<exists>c'. stored_preference
                  (fst (snd (process_message_with_translation e db platform user_id
                               message_text payload))) ref = Some c'
               \<and> c' \<noteq> []))
   \<and> (\<forall>ref. ref \<noteq> (user_collection platform, user_id) \<longrightarrow>
         documents (fst (snd (process_message_with_translation e db platform user_id
                                message_text payload))) ref = documents db ref)"
proof -
  let ?db' = "fst (snd (process_message_with_translation e db platform user_id message_text payload))"
  have a: "?db' = db" if "get_user_language db platform user_id = Inr (Some lang)" "lang \<noteq> []" for lang
    using that by (simp add: process_set)
  have b: "\<exists>pref selected.
               get_user_language db platform user_id = Inr pref \<and> \<not> truthy pref
               \<and> is_language_selection_response (unicode_lower e) message_text payload
                   = Some selected
               \<and> selected \<noteq> [] \<and> is_language_supported db selected = Inr True
               \<and> stored_preference ?db' (user_collection platform, user_id) = Some selected"
    if "?db' \<noteq> db"
    using that process_store [of e db platform user_id message_text payload]
    by (auto simp: set_user_language_stored)
  have c: "\<exists>c'. stored_preference ?db' ref = Some c' \<and> c' \<noteq> []"
    if "stored_preference db ref = Some c" "c \<noteq> []" for ref c
    using that process_store [of e db platform user_id message_text payload]
    by (auto simp: set_user_language_stored)
  have d: "documents ?db' ref = documents db ref" if "ref \<noteq> (user_collection platform, user_id)" for ref
    using that process_store [of e db platform user_id message_text payload]
    by (auto simp: set_user_language_cases)
  show ?thesis
    using a b c d by blast
qed

theorem preference_never_unset_witness:
  "get_user_language tamil_store (ascii ''facebook'') (ascii ''u1'') = Inr (Some (ascii ''ta''))
   \<and> fst (snd (process_message_with_translation bare_env tamil_store (ascii ''facebook'')
                  (ascii ''u1'') (ascii ''english'') None)) = tamil_store
   \<and> fst (snd (process_message_with_translation bare_env unreadable_store (ascii ''facebook'')
                  (ascii ''u1'') (ascii ''english'') None)) \<noteq> unreadable_store
   \<and> get_user_language unreadable_store (ascii ''facebook'') (ascii ''u1'') = Inr None
   \<and> is_language_selection_response (unicode_lower bare_env) (ascii ''english'') None
       = Some (ascii ''en'')
   \<and> stored_preference unreadable_store (ascii ''ss_facebook_user_details'', ascii ''u1'')
       = Some (ascii ''ta'')
   \<and> (\<exists>c'. stored_preference
               (fst (snd (process_message_with_translation bare_env unreadable_store
                            (ascii ''facebook'') (ascii ''u1'') (ascii ''english'') None)))
               (ascii ''ss_facebook_user_details'', ascii ''u1'') = Some c'
            \<and> c' \<noteq> [])
   \<and> documents
        (fst (snd (process_message_with_translation bare_env unreadable_store (ascii ''facebook'')
                     (ascii ''u1'') (ascii ''english'') None)))
        (ascii ''ss_facebook_user_details'', ascii ''u2'')
       = documents unreadable_store (ascii ''ss_facebook_user_details'', ascii ''u2'')"
proof -
  let ?db' = "fst (snd (process_message_with_translation bare_env unreadable_store
                          (ascii ''facebook'') (ascii ''u1'') (ascii ''english'') None))"
  have ne: "ascii ''ta'' \<noteq> []" "ascii ''en'' \<noteq> ascii ''ta''"
    by (simp_all add: ascii_def)
  have other: "(ascii ''ss_facebook_user_details'', ascii ''u2'')
                 \<noteq> (user_collection (ascii ''facebook''), ascii ''u1'')"
    by (simp add: ascii_def)
  note inst = preference_never_unset [of unreadable_store "ascii ''facebook''" "ascii ''u1''"
      bare_env "ascii ''english''" None]
  have kept: "fst (snd (process_message_with_translation bare_env tamil_store (ascii ''facebook'')
                  (ascii ''u1'') (ascii ''english'') None)) = tamil_store"
    using preference_never_unset [of tamil_store "ascii ''facebook''" "ascii ''u1''" bare_env
        "ascii ''english''" None] tamil_store_pref ne(1)
    by blast
  have changed: "?db' \<noteq> unreadable_store"
    using unreadable_store_after unreadable_store_stored ne(2) by auto
  have still: "\<exists>c'. stored_preference ?db'
                 (ascii ''ss_facebook_user_details'', ascii ''u1'') = Some c' \<and> c' \<noteq> []"
    using inst unreadable_store_stored ne(1) by blast
  have others: "documents ?db' (ascii ''ss_facebook_user_details'', ascii ''u2'')
       = documents unreadable_store (ascii ''ss_facebook_user_details'', ascii ''u2'')"
    using inst other by blast
  show ?thesis
    using kept changed still others tamil_store_pref unreadable_store_pref bare_english
      unreadable_store_stored
    by simp
qed

text \<open>
  Claim C10. When the parser gives a supported code and the write to the store fails,
  \<open>set_user_language\<close> returns \<open>False\<close> and the workflow still answers with the
  confirmation string of the code; the store is unchanged, so the preference is still
  unset and a later message that is no supported selection gets the language prompt again.
\<close>

theorem confirmation_despite_failed_write:
  assumes "get_user_language db platform user_id = Inr pref" and "\<not> truthy pref"
    and "is_language_selection_response (unicode_lower e) message_text payload = Some selected"
    and "selected \<noteq> []" and "is_language_supported db selected = Inr True"
    and "set_raises db"
  shows "set_user_language db platform user_id selected = (Inr False, db)
    \<and> process_message_with_translation e db platform user_id message_text payload =
        (Inr \<lparr>response = (if selected = ascii ''ta'' then confirmation_ta
                          else if selected = ascii ''ml'' then confirmation_ml
                          else confirmation_en),
              quick_replies = None, buttons = None\<rparr>, db, [])
    \<and> (\<forall>e2 text2 payload2.
          \<not> (\<exists>again.
                is_language_selection_response (unicode_lower e2) text2 payload2 = Some again
                \<and> again \<noteq> [] \<and> is_language_supported db again = Inr True)
          \<longrightarrow> (\<exists>replies btns.
                 process_message_with_translation e2 db platform user_id text2 payload2 =
                   (Inr \<lparr>response = prompt_text, quick_replies = Some replies,
                         buttons = Some btns\<rparr>, db, [])))"
proof (intro conjI allI impI)
  show failed: "set_user_language db platform user_id selected = (Inr False, db)"
    using assms(6) by (rule set_user_language_failed)
  show "process_message_with_translation e db platform user_id message_text payload =
        (Inr \<lparr>response = (if selected = ascii ''ta'' then confirmation_ta
                          else if selected = ascii ''ml'' then confirmation_ml
                          else confirmation_en),
              quick_replies = None, buttons = None\<rparr>, db, [])"
    using process_unset [OF assms(1,2)] awaiting_selected [OF assms(3,4,5)] failed
    by (simp add: confirmation_lookup)
next
  fix e2 :: env and text2 payload2
  assume none: "\<not> (\<exists>again.
                is_language_selection_response (unicode_lower e2) text2 payload2 = Some again
                \<and> again \<noteq> [] \<and> is_language_supported db again = Inr True)"
  obtain languages where languages: "get_supported_languages db = Inr languages"
    using get_supported_languages_total by blast
  show "\<exists>replies btns.
          process_message_with_translation e2 db platform user_id text2 payload2 =
            (Inr \<lparr>response = prompt_text, quick_replies = Some replies,
                  buttons = Some btns\<rparr>, db, [])"
    using process_unset [OF assms(1,2)] awaiting_prompt [OF none languages] by simp
qed

theorem confirmation_despite_failed_write_witness:
  "get_user_language readonly_store (ascii ''facebook'') (ascii ''u1'') = Inr None
   \<and> is_language_selection_response (unicode_lower bare_env) (ascii ''ok'') (Some (ascii ''LANG_ta''))
       = Some (ascii ''ta'')
   \<and> is_language_supported readonly_store (ascii ''ta'') = Inr True
   \<and> set_raises readonly_store
   \<and> process_message_with_translation bare_env readonly_store (ascii ''facebook'') (ascii ''u1'')
        (ascii ''ok'') (Some (ascii ''LANG_ta'')) =
       (Inr \<lparr>response = confirmation_ta, quick_replies = None, buttons = None\<rparr>,
        readonly_store, [])
   \<and> map_sum id response (fst (process_message_with_translation bare_env readonly_store
        (ascii ''facebook'') (ascii ''u1'') (ascii ''hello'') None)) = Inr prompt_text"
proof -
  have unset: "\<not> truthy None" by simp
  have ne: "ascii ''ta'' \<noteq> []" by (simp add: ascii_def)
  have fails: "set_raises readonly_store"
    by (simp add: readonly_store_def empty_store_def)
  have none: "\<not> (\<exists>again.
              is_language_selection_response (unicode_lower bare_env) (ascii ''hello'') None
                = Some again
              \<and> again \<noteq> [] \<and> is_language_supported readonly_store again = Inr True)"
    by (simp add: bare_hello)
  note inst = confirmation_despite_failed_write [OF readonly_store_pref unset parse_LANG_ta ne
      readonly_store_supported fails, of "ascii ''facebook''" "ascii ''u1''" bare_env "ascii ''ok''"]
  have first: "process_message_with_translation bare_env readonly_store (ascii ''facebook'')
        (ascii ''u1'') (ascii ''ok'') (Some (ascii ''LANG_ta'')) =
       (Inr \<lparr>response = confirmation_ta, quick_replies = None, buttons = None\<rparr>,
        readonly_store, [])"
    using inst by simp
  have "\<exists>replies btns.
          process_message_with_translation bare_env readonly_store (ascii ''facebook'')
            (ascii ''u1'') (ascii ''hello'') None =
            (Inr \<lparr>response = prompt_text, quick_replies = Some replies, buttons = Some btns\<rparr>,
             readonly_store, [])"
    using inst none by blast
  then have again: "map_sum id response (fst (process_message_with_translation bare_env readonly_store
        (ascii ''facebook'') (ascii ''u1'') (ascii ''hello'') None)) = Inr prompt_text"
    by auto
  show ?thesis
    using first again fails readonly_store_pref parse_LANG_ta readonly_store_supported by simp
qed

end
